theory Spec2Isabelle
  imports Main "HOL-Library.AList"
begin

section \<open>Strings and errors\<close>

text \<open>
  Go strings are modelled as \<^typ>\<open>string\<close>. \<open>strings.TrimSpace\<close> removes leading and
  trailing white space; the model covers the ASCII white space characters (tab, line
  feed, vertical tab, form feed, carriage return, space).
\<close>

definition isSpace :: "char \<Rightarrow> bool" where
  "isSpace c = (c = CHR 0x09 \<or> c = CHR 0x0A \<or> c = CHR 0x0B \<or> c = CHR 0x0C
                \<or> c = CHR 0x0D \<or> c = CHR 0x20)"

definition TrimSpace :: "string \<Rightarrow> string" where
  "TrimSpace s = rev (dropWhile isSpace (rev (dropWhile isSpace s)))"

definition HasPrefix :: "string \<Rightarrow> string \<Rightarrow> bool" where
  "HasPrefix s p = (take (length p) s = p)"

definition TrimPrefix :: "string \<Rightarrow> string \<Rightarrow> string" where
  "TrimPrefix s p = (if HasPrefix s p then drop (length p) s else s)"

text \<open>
  Errors are values. \<open>XmlError\<close> stands for any error raised by the XML decoder
  itself (a document that is not well formed, a root element of the wrong name or name
  space, a boolean or timestamp literal that does not parse). \<open>Errorf\<close> is an error
  built by this package with \<open>fmt.Errorf\<close> and no wrapped cause, \<open>Wrapped\<close> one
  built with the \<open>%w\<close> verb. \<open>RequestError\<close> is a failure of
  \<open>http.NewRequestWithContext\<close>, \<open>TransportError\<close> a failure of the injected HTTP
  client, and \<open>NilPointerPanic\<close> the run-time panic of dereferencing a nil pointer.
\<close>

datatype error =
    XmlError
  | Errorf string
  | Wrapped string error
  | RequestError
  | TransportError string
  | NilPointerPanic

section \<open>Query options\<close>

text \<open>
  \<open>url.Values\<close> maps a key to a list of values; \<open>Set\<close> replaces the list by a
  single value.
\<close>

type_synonym Values = "(string \<times> string list) list"

definition Values_Set :: "string \<Rightarrow> string \<Rightarrow> Values \<Rightarrow> Values" where
  "Values_Set k v vs = AList.update k [v] vs"

definition withStrict :: "Values \<Rightarrow> Values" where
  "withStrict v = Values_Set ''strict'' ''true'' v"

text \<open>
  The loop of \<open>WithTextQuery\<close> over \<open>texts\<close>, with the index and the buffer \<open>b\<close>
  as loop state: a separator is written before every term but the first, and a term is
  written only inside the \<open>strings.HasPrefix(t, "-")\<close> branch.
\<close>

fun WithTextQuery_loop :: "nat \<Rightarrow> string list \<Rightarrow> string \<Rightarrow> string" where
  "WithTextQuery_loop idx [] b = b"
| "WithTextQuery_loop idx (t # ts) b =
     (let b1 = (if idx \<noteq> 0 then b @ '' '' else b);
          b2 = (if HasPrefix t ''-''
                then b1 @ ''-'' @ [CHR 0x22] @ TrimPrefix t ''-'' @ [CHR 0x22]
                else b1)
      in WithTextQuery_loop (Suc idx) ts b2)"

definition WithTextQuery :: "string list \<Rightarrow> Values \<Rightarrow> Values" where
  "WithTextQuery texts v = Values_Set ''q'' (WithTextQuery_loop 0 texts []) v"

section \<open>Data model\<close>

text \<open>
  \<open>time.Time\<close> is modelled as an integer instant whose zero value is \<open>0\<close>.
\<close>

type_synonym time = int

record GDName =
  GivenName :: string
  AdditionalName :: string
  FamilyName :: string
  Prefix :: string
  Suffix :: string
  FullName :: string

record GDEmail =
  Address :: string
  Related :: string
  Label :: string
  Primary :: bool
  DisplayName :: string

record GDPhoneNumber =
  Related :: string
  Label :: string
  URI :: string
  Primary :: bool
  DialNumber :: string

record GDIM =
  Address :: string
  Label :: string
  Related :: string
  Protocol :: string
  Primary :: bool

record GDStructuredPostalAddress =
  Related :: string
  MailClass :: string
  Usage :: string
  Label :: string
  Primary :: bool
  Agent :: string
  HouseName :: string
  Pobox :: string
  Neighborhood :: string
  City :: string
  Street :: string
  Region :: string
  SubRegion :: string
  PostCode :: string
  Country :: string
  FormattedAddress :: string

record GDExtendedProperty =
  Name :: string
  Value :: string
  Realm :: string

record Link =
  Related :: string
  Type :: string
  Href :: string

text \<open>
  The map \<open>ExtendedProperty\<close> is an association list read through \<^const>\<open>map_of\<close>;
  \<open>m[k] = v\<close> is \<^const>\<open>AList.update\<close>, and the order of the list is the order in
  which a \<open>range\<close> over the map visits it. The unexported field \<open>id\<close> is named
  \<open>id_field\<close>.
\<close>

record ContactKind =
  Name :: GDName
  Email :: "GDEmail list"
  PhoneNumber :: "GDPhoneNumber list"
  StructuredPostalAddress :: "GDStructuredPostalAddress list"
  IM :: "GDIM list"
  ExtendedProperty :: "(string \<times> string) list"
  deleted :: bool
  editLink :: string
  photoLink :: string
  selfLink :: string
  id_field :: string
  updated :: time
  content :: string
  etag :: string

text \<open>The zero values of the structures.\<close>

definition GDName_zero :: GDName where
  "GDName_zero = \<lparr>GDName.GivenName = [], GDName.AdditionalName = [],
     GDName.FamilyName = [], GDName.Prefix = [], GDName.Suffix = [],
     GDName.FullName = []\<rparr>"

definition GDEmail_zero :: GDEmail where
  "GDEmail_zero = \<lparr>GDEmail.Address = [], GDEmail.Related = [], GDEmail.Label = [],
     GDEmail.Primary = False, GDEmail.DisplayName = []\<rparr>"

definition GDPhoneNumber_zero :: GDPhoneNumber where
  "GDPhoneNumber_zero = \<lparr>GDPhoneNumber.Related = [], GDPhoneNumber.Label = [],
     GDPhoneNumber.URI = [], GDPhoneNumber.Primary = False,
     GDPhoneNumber.DialNumber = []\<rparr>"

definition GDIM_zero :: GDIM where
  "GDIM_zero = \<lparr>GDIM.Address = [], GDIM.Label = [], GDIM.Related = [],
     GDIM.Protocol = [], GDIM.Primary = False\<rparr>"

definition GDStructuredPostalAddress_zero :: GDStructuredPostalAddress where
  "GDStructuredPostalAddress_zero =
     \<lparr>GDStructuredPostalAddress.Related = [], GDStructuredPostalAddress.MailClass = [],
      GDStructuredPostalAddress.Usage = [], GDStructuredPostalAddress.Label = [],
      GDStructuredPostalAddress.Primary = False, GDStructuredPostalAddress.Agent = [],
      GDStructuredPostalAddress.HouseName = [], GDStructuredPostalAddress.Pobox = [],
      GDStructuredPostalAddress.Neighborhood = [], GDStructuredPostalAddress.City = [],
      GDStructuredPostalAddress.Street = [], GDStructuredPostalAddress.Region = [],
      GDStructuredPostalAddress.SubRegion = [], GDStructuredPostalAddress.PostCode = [],
      GDStructuredPostalAddress.Country = [],
      GDStructuredPostalAddress.FormattedAddress = []\<rparr>"

definition GDExtendedProperty_zero :: GDExtendedProperty where
  "GDExtendedProperty_zero = \<lparr>GDExtendedProperty.Name = [],
     GDExtendedProperty.Value = [], GDExtendedProperty.Realm = []\<rparr>"

definition ContactKind_zero :: ContactKind where
  "ContactKind_zero = \<lparr>ContactKind.Name = GDName_zero, ContactKind.Email = [],
     ContactKind.PhoneNumber = [], ContactKind.StructuredPostalAddress = [],
     ContactKind.IM = [], ContactKind.ExtendedProperty = [], deleted = False,
     editLink = [], photoLink = [], selfLink = [], id_field = [], updated = 0,
     content = [], etag = []\<rparr>"

subsection \<open>Clone\<close>

text \<open>
  \<open>make([]T, n)\<close> is a slice of \<open>n\<close> zero values and \<open>make([]T, 0, n)\<close> an empty
  slice; \<open>append\<close> adds behind what the slice already holds. Each \<open>range\<close> loop of
  \<open>Clone\<close> is a left fold that appends to the slice made before it.
\<close>

definition append_all :: "'a list \<Rightarrow> 'a list \<Rightarrow> 'a list" where
  "append_all dst src = foldl (\<lambda>acc v. acc @ [v]) dst src"

definition Clone :: "ContactKind \<Rightarrow> ContactKind" where
  "Clone c =
     \<lparr>ContactKind.Name = ContactKind.Name c,
      ContactKind.Email =
        append_all (replicate (length (ContactKind.Email c)) GDEmail_zero)
          (ContactKind.Email c),
      ContactKind.PhoneNumber =
        append_all (replicate (length (ContactKind.PhoneNumber c)) GDPhoneNumber_zero)
          (ContactKind.PhoneNumber c),
      ContactKind.StructuredPostalAddress =
        append_all
          (replicate (length (ContactKind.StructuredPostalAddress c))
             GDStructuredPostalAddress_zero)
          (ContactKind.StructuredPostalAddress c),
      ContactKind.IM = append_all [] (ContactKind.IM c),
      ContactKind.ExtendedProperty =
        foldl (\<lambda>m (k, v). AList.update k v m) [] (ContactKind.ExtendedProperty c),
      deleted = deleted c,
      editLink = editLink c,
      photoLink = photoLink c,
      selfLink = selfLink c,
      id_field = id_field c,
      updated = updated c,
      content = content c,
      etag = etag c\<rparr>"

section \<open>XML\<close>

text \<open>
  The codec of this package runs on top of \<open>encoding/xml\<close>. What a \<open>MarshalXML\<close>
  method hands to the encoder is a \<open>markup\<close> tree: a start tag written as given (the
  package writes its tags with a literal prefix, such as \<open>gd:name\<close>), attributes in
  the order of the struct's fields, the child elements, and the character data. What an
  \<open>UnmarshalXML\<close> method receives from the decoder is an \<open>elem\<close>: names are pairs of
  a name space and a local name, and \<open>elem_chardata\<close> is the character data that
  stands directly inside the element.
\<close>

datatype markup =
  Markup (markup_tag: string) (markup_attrs: "(string \<times> string) list")
    (markup_children: "markup list") (markup_chardata: string)

type_synonym xml_Name = "string \<times> string"

datatype elem =
  Elem (elem_name: xml_Name) (elem_attrs: "(xml_Name \<times> string) list")
    (elem_children: "elem list") (elem_chardata: string)

definition atom_ns :: string where
  "atom_ns = ''http://www.w3.org/2005/Atom''"

definition gd_ns :: string where
  "gd_ns = ''http://schemas.google.com/g/2005''"

subsection \<open>From the written document to the parsed one\<close>

text \<open>
  \<open>wire\<close> is the parser's reading of a written \<open>markup\<close> tree. A name is cut at its
  colon into prefix and local name; a name with more than one colon is a syntax error.
  The \<open>xmlns\<close> attributes of a start tag extend the prefix table for the element
  and its descendants, an element's prefix is replaced by what the table holds for it
  and is left as it is when the table has no entry, and an attribute without prefix
  stays in no name space. Character data is taken to survive writing and parsing
  unchanged.
\<close>

definition nsname :: "string \<Rightarrow> xml_Name option" where
  "nsname s =
     (if count_list s CHR '':'' > 1 then None
      else if CHR '':'' \<in> set s
              \<and> takeWhile (\<lambda>c. c \<noteq> CHR '':'') s \<noteq> []
              \<and> tl (dropWhile (\<lambda>c. c \<noteq> CHR '':'') s) \<noteq> []
           then Some (takeWhile (\<lambda>c. c \<noteq> CHR '':'') s,
                      tl (dropWhile (\<lambda>c. c \<noteq> CHR '':'') s))
           else Some ([], s))"

definition translate :: "(string \<rightharpoonup> string) \<Rightarrow> bool \<Rightarrow> xml_Name \<Rightarrow> xml_Name" where
  "translate ns isElementName n =
     (if fst n = ''xmlns'' then n
      else if fst n = [] \<and> \<not> isElementName then n
      else if fst n = [] \<and> snd n = ''xmlns'' then n
      else (let sp = (if fst n = ''xml'' then ''http://www.w3.org/XML/1998/namespace''
                      else fst n)
            in case ns sp of Some v \<Rightarrow> (v, snd n) | None \<Rightarrow> (sp, snd n)))"

fun push_ns :: "(string \<rightharpoonup> string) \<Rightarrow> (xml_Name \<times> string) list \<Rightarrow> (string \<rightharpoonup> string)" where
  "push_ns ns [] = ns"
| "push_ns ns ((n, v) # as) =
     push_ns (if fst n = ''xmlns'' then ns(snd n \<mapsto> v)
              else if fst n = [] \<and> snd n = ''xmlns'' then ns([] \<mapsto> v)
              else ns) as"

fun those_attrs :: "(string \<times> string) list \<Rightarrow> (xml_Name \<times> string) list option" where
  "those_attrs [] = Some []"
| "those_attrs ((k, v) # as) =
     (case nsname k of None \<Rightarrow> None
      | Some n \<Rightarrow> (case those_attrs as of None \<Rightarrow> None | Some r \<Rightarrow> Some ((n, v) # r)))"

fun wire :: "(string \<rightharpoonup> string) \<Rightarrow> markup \<Rightarrow> elem option" where
  "wire ns (Markup tag as cs t) =
     (case nsname tag of None \<Rightarrow> None
      | Some n \<Rightarrow>
        (case those_attrs as of None \<Rightarrow> None
         | Some ras \<Rightarrow>
           (let ns' = push_ns ns ras in
            case those (map (wire ns') cs) of None \<Rightarrow> None
            | Some rcs \<Rightarrow>
                Some (Elem (translate ns' True n)
                        (map (\<lambda>(k, v). (translate ns' False k, v)) ras) rcs t))))"

subsection \<open>How the decoder fills a field\<close>

text \<open>
  A struct field tagged \<open>xml:"n,attr"\<close> takes every attribute whose local name is
  \<open>n\<close>, in document order, and a field tagged \<open>xml:"n"\<close> every child element whose
  local name is \<open>n\<close>; a tag that starts with a name space takes only the children in
  that name space, and so does a tag without one in a struct whose \<open>XMLName\<close> has a
  name space, which the element fields inherit. Each match overwrites the field (or
  extends it, for a slice). A
  string takes the text as it is; a boolean is \<open>false\<close> for the empty text and
  \<open>strconv.ParseBool\<close> of the trimmed text otherwise.
\<close>

definition attr_values :: "string \<Rightarrow> (xml_Name \<times> string) list \<Rightarrow> string list" where
  "attr_values n as = map snd (filter (\<lambda>a. snd (fst a) = n) as)"

definition elems_local :: "string \<Rightarrow> elem list \<Rightarrow> elem list" where
  "elems_local n cs = filter (\<lambda>c. snd (elem_name c) = n) cs"

definition elems_ns :: "string \<Rightarrow> string \<Rightarrow> elem list \<Rightarrow> elem list" where
  "elems_ns sp n cs = filter (\<lambda>c. elem_name c = (sp, n)) cs"

definition copy_string :: "string \<Rightarrow> string list \<Rightarrow> string" where
  "copy_string v0 srcs = foldl (\<lambda>old src. src) v0 srcs"

definition ParseBool :: "string \<Rightarrow> error + bool" where
  "ParseBool s =
     (if List.member [''1'', ''t'', ''T'', ''TRUE'', ''true'', ''True''] s then Inr True
      else if List.member [''0'', ''f'', ''F'', ''FALSE'', ''false'', ''False''] s then Inr False
      else Inl XmlError)"

definition copyValue_bool :: "string \<Rightarrow> error + bool" where
  "copyValue_bool src = (if src = [] then Inr False else ParseBool (TrimSpace src))"

fun copy_bool :: "bool \<Rightarrow> string list \<Rightarrow> error + bool" where
  "copy_bool v [] = Inr v"
| "copy_bool v (src # srcs) =
     (case copyValue_bool src of Inl e \<Rightarrow> Inl e | Inr b \<Rightarrow> copy_bool b srcs)"

definition attr_string :: "string \<Rightarrow> (xml_Name \<times> string) list \<Rightarrow> string" where
  "attr_string n as = copy_string [] (attr_values n as)"

definition attr_bool :: "string \<Rightarrow> (xml_Name \<times> string) list \<Rightarrow> error + bool" where
  "attr_bool n as = copy_bool False (attr_values n as)"

definition elem_string :: "string \<Rightarrow> elem list \<Rightarrow> string" where
  "elem_string n cs = copy_string [] (map elem_chardata (elems_local n cs))"

definition elem_string_ns :: "string \<Rightarrow> string \<Rightarrow> elem list \<Rightarrow> string" where
  "elem_string_ns sp n cs = copy_string [] (map elem_chardata (elems_ns sp n cs))"

definition bindE :: "error + 'a \<Rightarrow> ('a \<Rightarrow> error + 'b) \<Rightarrow> error + 'b" where
  "bindE r f = (case r of Inl e \<Rightarrow> Inl e | Inr v \<Rightarrow> f v)"

fun mapE :: "('a \<Rightarrow> error + 'b) \<Rightarrow> 'a list \<Rightarrow> error + 'b list" where
  "mapE f [] = Inr []"
| "mapE f (x # xs) =
     (case f x of Inl e \<Rightarrow> Inl e
      | Inr y \<Rightarrow> (case mapE f xs of Inl e \<Rightarrow> Inl e | Inr ys \<Rightarrow> Inr (y # ys)))"

fun foldE :: "('b \<Rightarrow> 'a \<Rightarrow> error + 'b) \<Rightarrow> 'b \<Rightarrow> 'a list \<Rightarrow> error + 'b" where
  "foldE f acc [] = Inr acc"
| "foldE f acc (x # xs) =
     (case f acc x of Inl e \<Rightarrow> Inl e | Inr acc' \<Rightarrow> foldE f acc' xs)"

subsection \<open>How the encoder writes a field\<close>

text \<open>
  A field tagged \<open>omitempty\<close> is written only when it is not the zero value of its
  type; a field without the option is always written. \<open>true\<close> is what the encoder
  writes for a boolean that is set.
\<close>

definition attr_always :: "string \<Rightarrow> string \<Rightarrow> (string \<times> string) list" where
  "attr_always n v = [(n, v)]"

definition attr_omitempty :: "string \<Rightarrow> string \<Rightarrow> (string \<times> string) list" where
  "attr_omitempty n v = (if v = [] then [] else [(n, v)])"

definition attr_bool_omitempty :: "string \<Rightarrow> bool \<Rightarrow> (string \<times> string) list" where
  "attr_bool_omitempty n b = (if b then [(n, ''true'')] else [])"

definition elem_always :: "string \<Rightarrow> string \<Rightarrow> markup list" where
  "elem_always n v = [Markup n [] [] v]"

definition elem_omitempty :: "string \<Rightarrow> string \<Rightarrow> markup list" where
  "elem_omitempty n v = (if v = [] then [] else [Markup n [] [] v])"

section \<open>The codec of \<open>encoding.go\<close>\<close>

subsection \<open>MarshalXML\<close>

definition GDName_MarshalXML :: "GDName \<Rightarrow> markup" where
  "GDName_MarshalXML n =
     Markup ''gd:name'' []
       (elem_omitempty ''gd:givenName'' (GDName.GivenName n)
        @ elem_omitempty ''gd:additionalName'' (GDName.AdditionalName n)
        @ elem_omitempty ''gd:familyName'' (GDName.FamilyName n)
        @ elem_omitempty ''gd:namePrefix'' (GDName.Prefix n)
        @ elem_omitempty ''gd:nameSuffix'' (GDName.Suffix n)
        @ elem_omitempty ''gd:fullName'' (TrimSpace (GDName.FullName n)))
       []"

definition GDEmail_MarshalXML :: "GDEmail \<Rightarrow> markup" where
  "GDEmail_MarshalXML m =
     Markup ''gd:email''
       (attr_always ''address'' (GDEmail.Address m)
        @ attr_omitempty ''rel'' (GDEmail.Related m)
        @ attr_omitempty ''label'' (GDEmail.Label m)
        @ attr_bool_omitempty ''primary'' (GDEmail.Primary m)
        @ attr_omitempty ''displayName'' (GDEmail.DisplayName m))
       [] []"

definition GDPhoneNumber_MarshalXML :: "GDPhoneNumber \<Rightarrow> markup" where
  "GDPhoneNumber_MarshalXML n =
     Markup ''gd:phoneNumber''
       (attr_omitempty ''rel'' (GDPhoneNumber.Related n)
        @ attr_omitempty ''label'' (GDPhoneNumber.Label n)
        @ attr_omitempty ''uri'' (GDPhoneNumber.URI n)
        @ attr_bool_omitempty ''primary'' (GDPhoneNumber.Primary n))
       [] (TrimSpace (GDPhoneNumber.DialNumber n))"

definition GDIM_MarshalXML :: "GDIM \<Rightarrow> markup" where
  "GDIM_MarshalXML im =
     Markup ''gd:im''
       (attr_always ''address'' (GDIM.Address im)
        @ attr_omitempty ''label'' (GDIM.Label im)
        @ attr_omitempty ''rel'' (GDIM.Related im)
        @ attr_omitempty ''protocol'' (GDIM.Protocol im)
        @ attr_bool_omitempty ''primary'' (GDIM.Primary im))
       [] []"

definition GDStructuredPostalAddress_MarshalXML :: "GDStructuredPostalAddress \<Rightarrow> markup" where
  "GDStructuredPostalAddress_MarshalXML a =
     Markup ''gd:structuredPostalAddress''
       (attr_omitempty ''rel'' (GDStructuredPostalAddress.Related a)
        @ attr_omitempty ''mailClass'' (GDStructuredPostalAddress.MailClass a)
        @ attr_omitempty ''usage'' (GDStructuredPostalAddress.Usage a)
        @ attr_omitempty ''label'' (GDStructuredPostalAddress.Label a)
        @ attr_bool_omitempty ''primary'' (GDStructuredPostalAddress.Primary a))
       (elem_omitempty ''gd:agent'' (GDStructuredPostalAddress.Agent a)
        @ elem_omitempty ''gd:housename'' (GDStructuredPostalAddress.HouseName a)
        @ elem_omitempty ''gd:pobox'' (GDStructuredPostalAddress.Pobox a)
        @ elem_omitempty ''gd:neighborhood'' (GDStructuredPostalAddress.Neighborhood a)
        @ elem_omitempty ''gd:city'' (GDStructuredPostalAddress.City a)
        @ elem_omitempty ''gd:street'' (GDStructuredPostalAddress.Street a)
        @ elem_omitempty ''gd:region'' (GDStructuredPostalAddress.Region a)
        @ elem_omitempty ''gd:subregion'' (GDStructuredPostalAddress.SubRegion a)
        @ elem_omitempty ''gd:postcode'' (GDStructuredPostalAddress.PostCode a)
        @ elem_omitempty ''gd:country'' (GDStructuredPostalAddress.Country a)
        @ elem_omitempty ''gd:formattedAddress''
            (GDStructuredPostalAddress.FormattedAddress a))
       []"

definition GDExtendedProperty_MarshalXML :: "GDExtendedProperty \<Rightarrow> markup" where
  "GDExtendedProperty_MarshalXML p =
     Markup ''gd:extendedProperty''
       (attr_always ''name'' (GDExtendedProperty.Name p)
        @ attr_omitempty ''value'' (GDExtendedProperty.Value p)
        @ attr_omitempty ''realm'' (GDExtendedProperty.Realm p))
       [] []"

text \<open>
  \<open>ContactKind.MarshalXML\<close> fills an \<open>encodeContactKind\<close> and encodes it under the
  start tag \<open>entry\<close> with the two \<open>xmlns\<close> attributes. The fields of
  \<open>encodeContactKind\<close> are written in their order of declaration: name, emails, phone
  numbers, postal addresses, content, category, extended properties, instant-message
  handles. A slice with \<open>omitempty\<close> writes one element for each of its entries and
  nothing when it is empty.
\<close>

record encodeContactKind =
  enc_Name :: GDName
  enc_Email :: "GDEmail list"
  enc_PhoneNumber :: "GDPhoneNumber list"
  enc_StructuredPostalAddress :: "GDStructuredPostalAddress list"
  enc_Content :: string
  enc_ExtendedProperty :: "GDExtendedProperty list"
  enc_IM :: "GDIM list"

definition fill_encodeContactKind :: "ContactKind \<Rightarrow> encodeContactKind" where
  "fill_encodeContactKind c =
     \<lparr>enc_Name =
        \<lparr>GDName.GivenName = GDName.GivenName (ContactKind.Name c),
         GDName.AdditionalName = GDName.AdditionalName (ContactKind.Name c),
         GDName.FamilyName = GDName.FamilyName (ContactKind.Name c),
         GDName.Prefix = GDName.Prefix (ContactKind.Name c),
         GDName.Suffix = GDName.Suffix (ContactKind.Name c),
         GDName.FullName = GDName.FullName (ContactKind.Name c)\<rparr>,
      enc_Email = [] @ ContactKind.Email c,
      enc_PhoneNumber =
        replicate (length (ContactKind.PhoneNumber c)) GDPhoneNumber_zero
        @ ContactKind.PhoneNumber c,
      enc_StructuredPostalAddress =
        replicate (length (ContactKind.StructuredPostalAddress c))
          GDStructuredPostalAddress_zero
        @ ContactKind.StructuredPostalAddress c,
      enc_Content = content c,
      enc_ExtendedProperty =
        foldl (\<lambda>acc (k, v). acc @ [\<lparr>GDExtendedProperty.Name = k,
                 GDExtendedProperty.Value = v, GDExtendedProperty.Realm = []\<rparr>])
          (replicate (length (ContactKind.ExtendedProperty c)) GDExtendedProperty_zero)
          (ContactKind.ExtendedProperty c),
      enc_IM = replicate (length (ContactKind.IM c)) GDIM_zero @ ContactKind.IM c\<rparr>"

definition ContactKind_MarshalXML :: "ContactKind \<Rightarrow> markup" where
  "ContactKind_MarshalXML c =
     (let obj = fill_encodeContactKind c in
      Markup ''entry''
        [(''xmlns:atom'', ''http://www.w3.org/2005/Atom''),
         (''xmlns:gd'', ''http://schemas.google.com/g/2005'')]
        ([GDName_MarshalXML (enc_Name obj)]
         @ map GDEmail_MarshalXML (enc_Email obj)
         @ map GDPhoneNumber_MarshalXML (enc_PhoneNumber obj)
         @ map GDStructuredPostalAddress_MarshalXML (enc_StructuredPostalAddress obj)
         @ elem_always ''content'' (enc_Content obj)
         @ [Markup ''category''
              [(''scheme'', ''http://schemas.google.com/g/2005#kind''),
               (''term'', ''http://schemas.google.com/contact/2008#contact'')] [] []]
         @ map GDExtendedProperty_MarshalXML (enc_ExtendedProperty obj)
         @ map GDIM_MarshalXML (enc_IM obj))
        [])"

subsection \<open>UnmarshalXML\<close>

text \<open>
  \<open>GDEmail\<close>, \<open>GDIM\<close>, \<open>GDExtendedProperty\<close> and \<open>Link\<close> have no
  \<open>UnmarshalXML\<close> of their own: the decoder fills them from their field tags. The
  package decodes them as entries of a slice, each into a fresh zero value. Decoding
  an attribute into a boolean field can fail.
\<close>

definition GDEmail_Unmarshal :: "elem \<Rightarrow> error + GDEmail" where
  "GDEmail_Unmarshal start =
     bindE (attr_bool ''primary'' (elem_attrs start)) (\<lambda>primary.
       Inr \<lparr>GDEmail.Address = attr_string ''address'' (elem_attrs start),
            GDEmail.Related = attr_string ''rel'' (elem_attrs start),
            GDEmail.Label = attr_string ''label'' (elem_attrs start),
            GDEmail.Primary = primary,
            GDEmail.DisplayName = attr_string ''displayName'' (elem_attrs start)\<rparr>)"

definition GDIM_Unmarshal :: "elem \<Rightarrow> error + GDIM" where
  "GDIM_Unmarshal start =
     bindE (attr_bool ''primary'' (elem_attrs start)) (\<lambda>primary.
       Inr \<lparr>GDIM.Address = attr_string ''address'' (elem_attrs start),
            GDIM.Label = attr_string ''label'' (elem_attrs start),
            GDIM.Related = attr_string ''rel'' (elem_attrs start),
            GDIM.Protocol = attr_string ''protocol'' (elem_attrs start),
            GDIM.Primary = primary\<rparr>)"

definition GDExtendedProperty_Unmarshal :: "elem \<Rightarrow> error + GDExtendedProperty" where
  "GDExtendedProperty_Unmarshal start =
     Inr \<lparr>GDExtendedProperty.Name = attr_string ''name'' (elem_attrs start),
          GDExtendedProperty.Value = attr_string ''value'' (elem_attrs start),
          GDExtendedProperty.Realm = attr_string ''realm'' (elem_attrs start)\<rparr>"

definition Link_Unmarshal :: "elem \<Rightarrow> error + Link" where
  "Link_Unmarshal start =
     Inr \<lparr>Link.Related = attr_string ''rel'' (elem_attrs start),
          Link.Type = attr_string ''type'' (elem_attrs start),
          Link.Href = attr_string ''href'' (elem_attrs start)\<rparr>"

text \<open>
  The three methods below decode into a local zero value \<open>o\<close> (\<open>obj\<close> below) and then assign to the
  receiver, which is the first argument here. The local struct of each has the fields
  of the receiver's type, so the model uses that type for \<open>o\<close>.
\<close>

definition GDName_UnmarshalXML :: "GDName \<Rightarrow> elem \<Rightarrow> error + GDName" where
  "GDName_UnmarshalXML n start =
     (let obj = \<lparr>GDName.GivenName = elem_string ''givenName'' (elem_children start),
               GDName.AdditionalName = elem_string ''additionalName'' (elem_children start),
               GDName.FamilyName = elem_string ''familyName'' (elem_children start),
               GDName.Prefix = elem_string ''namePrefix'' (elem_children start),
               GDName.Suffix = elem_string ''nameSuffix'' (elem_children start),
               GDName.FullName = elem_string ''fullName'' (elem_children start)\<rparr>
      in Inr (n\<lparr>GDName.GivenName := GDName.GivenName obj,
                GDName.AdditionalName := GDName.AdditionalName obj,
                GDName.FamilyName := GDName.FamilyName obj,
                GDName.Prefix := GDName.Prefix obj,
                GDName.Suffix := GDName.Suffix obj,
                GDName.FullName := TrimSpace (GDName.FullName obj)\<rparr>))"

definition GDPhoneNumber_UnmarshalXML :: "GDPhoneNumber \<Rightarrow> elem \<Rightarrow> error + GDPhoneNumber" where
  "GDPhoneNumber_UnmarshalXML n start =
     bindE (attr_bool ''primary'' (elem_attrs start)) (\<lambda>primary.
       let obj = \<lparr>GDPhoneNumber.Related = attr_string ''rel'' (elem_attrs start),
                GDPhoneNumber.Label = attr_string ''label'' (elem_attrs start),
                GDPhoneNumber.URI = attr_string ''uri'' (elem_attrs start),
                GDPhoneNumber.Primary = primary,
                GDPhoneNumber.DialNumber = elem_chardata start\<rparr>
       in Inr (n\<lparr>GDPhoneNumber.Related := GDPhoneNumber.Related obj,
                 GDPhoneNumber.Label := GDPhoneNumber.Label obj,
                 GDPhoneNumber.URI := GDPhoneNumber.URI obj,
                 GDPhoneNumber.Primary := GDPhoneNumber.Primary obj,
                 GDPhoneNumber.DialNumber := TrimSpace (GDPhoneNumber.DialNumber obj)\<rparr>))"

text \<open>
  The assignments of \<open>GDStructuredPostalAddress.UnmarshalXML\<close> in the order of the
  source: the first one stores \<open>o.Related\<close> in \<open>a.Region\<close>, a later one stores
  \<open>o.Region\<close> there, and none assigns \<open>a.Related\<close>.
\<close>

definition GDStructuredPostalAddress_UnmarshalXML ::
  "GDStructuredPostalAddress \<Rightarrow> elem \<Rightarrow> error + GDStructuredPostalAddress" where
  "GDStructuredPostalAddress_UnmarshalXML a start =
     bindE (attr_bool ''primary'' (elem_attrs start)) (\<lambda>primary.
       let obj = \<lparr>GDStructuredPostalAddress.Related = attr_string ''rel'' (elem_attrs start),
                GDStructuredPostalAddress.MailClass = attr_string ''mailClass'' (elem_attrs start),
                GDStructuredPostalAddress.Usage = attr_string ''usage'' (elem_attrs start),
                GDStructuredPostalAddress.Label = attr_string ''label'' (elem_attrs start),
                GDStructuredPostalAddress.Primary = primary,
                GDStructuredPostalAddress.Agent = elem_string ''agent'' (elem_children start),
                GDStructuredPostalAddress.HouseName = elem_string ''housename'' (elem_children start),
                GDStructuredPostalAddress.Pobox = elem_string ''pobox'' (elem_children start),
                GDStructuredPostalAddress.Neighborhood =
                  elem_string ''neighborhood'' (elem_children start),
                GDStructuredPostalAddress.City = elem_string ''city'' (elem_children start),
                GDStructuredPostalAddress.Street = elem_string ''street'' (elem_children start),
                GDStructuredPostalAddress.Region = elem_string ''region'' (elem_children start),
                GDStructuredPostalAddress.SubRegion = elem_string ''subregion'' (elem_children start),
                GDStructuredPostalAddress.PostCode = elem_string ''postcode'' (elem_children start),
                GDStructuredPostalAddress.Country = elem_string ''country'' (elem_children start),
                GDStructuredPostalAddress.FormattedAddress =
                  elem_string ''formattedAddress'' (elem_children start)\<rparr>;
           a1 = a\<lparr>GDStructuredPostalAddress.Region := GDStructuredPostalAddress.Related obj\<rparr>;
           a2 = a1\<lparr>GDStructuredPostalAddress.MailClass := GDStructuredPostalAddress.MailClass obj,
                   GDStructuredPostalAddress.Usage := GDStructuredPostalAddress.Usage obj,
                   GDStructuredPostalAddress.Label := GDStructuredPostalAddress.Label obj,
                   GDStructuredPostalAddress.Primary := GDStructuredPostalAddress.Primary obj,
                   GDStructuredPostalAddress.Agent := GDStructuredPostalAddress.Agent obj,
                   GDStructuredPostalAddress.HouseName := GDStructuredPostalAddress.HouseName obj,
                   GDStructuredPostalAddress.Pobox := GDStructuredPostalAddress.Pobox obj,
                   GDStructuredPostalAddress.Neighborhood :=
                     GDStructuredPostalAddress.Neighborhood obj,
                   GDStructuredPostalAddress.City := GDStructuredPostalAddress.City obj,
                   GDStructuredPostalAddress.Street := GDStructuredPostalAddress.Street obj\<rparr>
       in Inr (a2\<lparr>GDStructuredPostalAddress.Region := GDStructuredPostalAddress.Region obj,
                  GDStructuredPostalAddress.SubRegion := GDStructuredPostalAddress.SubRegion obj,
                  GDStructuredPostalAddress.PostCode := GDStructuredPostalAddress.PostCode obj,
                  GDStructuredPostalAddress.Country := GDStructuredPostalAddress.Country obj,
                  GDStructuredPostalAddress.FormattedAddress :=
                    GDStructuredPostalAddress.FormattedAddress obj\<rparr>))"

text \<open>
  \<open>ContactKind.UnmarshalXML\<close> first decodes the element into a \<open>decodeContactKind\<close>.
  Its \<open>XMLName\<close> tag fixes the root to \<open>entry\<close> in the Atom name space. The child
  elements \<open>category\<close>, \<open>id\<close>, \<open>updated\<close>, \<open>title\<close> and \<open>content\<close>, whose
  tags name no name space, inherit the Atom name space from \<open>XMLName\<close>; the others
  are taken in the name space of their tag, and attributes in any. The timestamp is read
  by \<open>time.Time\<close>'s own parser, a parameter \<open>pt\<close> of the model that returns \<open>None\<close>
  for a text it rejects. \<open>Organization\<close> entries are empty structs that nothing
  reads, and are left out.
\<close>

record decodeContactKind =
  o_Etag :: string
  o_Category_Term :: string
  o_ID :: string
  o_Updated :: time
  o_Title :: string
  o_Content :: string
  o_Name :: GDName
  o_Email :: "GDEmail list"
  o_Deleted :: bool
  o_PhoneNumber :: "GDPhoneNumber list"
  o_StructuredPostalAddress :: "GDStructuredPostalAddress list"
  o_Link :: "Link list"
  o_ExtendedProperty :: "GDExtendedProperty list"
  o_IM :: "GDIM list"

definition decode_time :: "(string \<Rightarrow> time option) \<Rightarrow> elem list \<Rightarrow> error + time" where
  "decode_time pt es =
     foldE (\<lambda>old e. case pt (elem_chardata e) of None \<Rightarrow> Inl XmlError | Some t \<Rightarrow> Inr t)
       0 es"

definition decode_Category_Term :: "elem list \<Rightarrow> string" where
  "decode_Category_Term cs =
     copy_string []
       (concat (map (\<lambda>c. attr_values ''term'' (elem_attrs c))
                  (elems_ns atom_ns ''category'' cs)))"

definition decodeContactKind_DecodeElement ::
  "(string \<Rightarrow> time option) \<Rightarrow> elem \<Rightarrow> error + decodeContactKind" where
  "decodeContactKind_DecodeElement pt start =
     (if elem_name start \<noteq> (atom_ns, ''entry'') then Inl XmlError
      else
        bindE (decode_time pt (elems_ns atom_ns ''updated'' (elem_children start))) (\<lambda>upd.
        bindE (foldE GDName_UnmarshalXML GDName_zero
                 (elems_ns gd_ns ''name'' (elem_children start))) (\<lambda>name.
        bindE (mapE GDEmail_Unmarshal (elems_ns gd_ns ''email'' (elem_children start))) (\<lambda>emails.
        bindE (copy_bool False
                 (map elem_chardata (elems_ns gd_ns ''deleted'' (elem_children start)))) (\<lambda>del.
        bindE (mapE (GDPhoneNumber_UnmarshalXML GDPhoneNumber_zero)
                 (elems_ns gd_ns ''phoneNumber'' (elem_children start))) (\<lambda>phones.
        bindE (mapE (GDStructuredPostalAddress_UnmarshalXML GDStructuredPostalAddress_zero)
                 (elems_ns gd_ns ''structuredPostalAddress'' (elem_children start))) (\<lambda>addrs.
        bindE (mapE Link_Unmarshal (elems_ns atom_ns ''link'' (elem_children start))) (\<lambda>links.
        bindE (mapE GDExtendedProperty_Unmarshal
                 (elems_ns gd_ns ''extendedProperty'' (elem_children start))) (\<lambda>props.
        bindE (mapE GDIM_Unmarshal (elems_ns gd_ns ''im'' (elem_children start))) (\<lambda>ims.
          Inr \<lparr>o_Etag = attr_string ''etag'' (elem_attrs start),
               o_Category_Term = decode_Category_Term (elem_children start),
               o_ID = elem_string_ns atom_ns ''id'' (elem_children start),
               o_Updated = upd,
               o_Title = elem_string_ns atom_ns ''title'' (elem_children start),
               o_Content = elem_string_ns atom_ns ''content'' (elem_children start),
               o_Name = name,
               o_Email = emails,
               o_Deleted = del,
               o_PhoneNumber = phones,
               o_StructuredPostalAddress = addrs,
               o_Link = links,
               o_ExtendedProperty = props,
               o_IM = ims\<rparr>))))))))))"

definition contactTerm :: string where
  "contactTerm = ''http://schemas.google.com/contact/2008#contact''"

definition set_links :: "ContactKind \<Rightarrow> Link list \<Rightarrow> ContactKind" where
  "set_links c ls =
     foldl (\<lambda>c l.
        if Link.Related l = ''http://schemas.google.com/contacts/2008/rel#photo''
          then c\<lparr>photoLink := Link.Href l\<rparr>
        else if Link.Related l = ''self'' then c\<lparr>selfLink := Link.Href l\<rparr>
        else if Link.Related l = ''edit'' then c\<lparr>editLink := Link.Href l\<rparr>
        else c) c ls"

definition set_ExtendedProperty :: "GDExtendedProperty list \<Rightarrow> (string \<times> string) list" where
  "set_ExtendedProperty pairs =
     foldl (\<lambda>m pair. AList.update (GDExtendedProperty.Name pair)
                       (GDExtendedProperty.Value pair) m) [] pairs"

definition ContactKind_UnmarshalXML ::
  "(string \<Rightarrow> time option) \<Rightarrow> ContactKind \<Rightarrow> elem \<Rightarrow> error + ContactKind" where
  "ContactKind_UnmarshalXML pt c start =
     (case decodeContactKind_DecodeElement pt start of
        Inl err \<Rightarrow> Inl err
      | Inr obj \<Rightarrow>
          if o_Category_Term obj \<noteq> contactTerm
          then Inl (Errorf (''xml type not match: expect '' @ contactTerm @ '', got ''
                             @ o_Category_Term obj))
          else
            (let c1 = c\<lparr>ContactKind.Name :=
                         \<lparr>GDName.GivenName = GDName.GivenName (o_Name obj),
                          GDName.AdditionalName = GDName.AdditionalName (o_Name obj),
                          GDName.FamilyName = GDName.FamilyName (o_Name obj),
                          GDName.Prefix = GDName.Prefix (o_Name obj),
                          GDName.Suffix = GDName.Suffix (o_Name obj),
                          GDName.FullName = GDName.FullName (o_Name obj)\<rparr>,
                       ContactKind.Email := [] @ o_Email obj,
                       ContactKind.IM := [] @ o_IM obj,
                       ContactKind.PhoneNumber := [] @ o_PhoneNumber obj,
                       ContactKind.StructuredPostalAddress := [] @ o_StructuredPostalAddress obj\<rparr>;
                 c2 = set_links c1 (o_Link obj)
             in Inr (c2\<lparr>deleted := o_Deleted obj,
                        id_field := o_ID obj,
                        updated := o_Updated obj,
                        content := o_Content obj,
                        etag := o_Etag obj,
                        ContactKind.ExtendedProperty :=
                          set_ExtendedProperty (o_ExtendedProperty obj)\<rparr>)))"

section \<open>The service\<close>

text \<open>
  A request carries its method, its URL, its header and, for a \<open>PUT\<close>, the encoded
  contact. A response carries the status and the body as the XML decoder reads it:
  the root element, or \<open>None\<close> for a body that holds no well-formed element (an empty
  body among them). Header keys are written as in the source.
\<close>

record Request =
  Method :: string
  URL :: string
  Header :: "(string \<times> string) list"
  ReqBody :: "markup option"

record Response =
  StatusCode :: int
  Status :: string
  Body :: "elem option"

text \<open>
  The HTTP client is injected. It is a function from the request and the state of the
  world behind it to an answer (an error or a response) and the next state, so the same
  request may be answered differently at different times.

  Three functions of the standard library are parameters of the model:
  \<open>parse_time\<close> is the parser of \<open>time.Time\<close>, \<open>url_ok\<close> tells whether
  \<open>http.NewRequestWithContext\<close> accepts a URL, and \<open>values_encode\<close> is
  \<open>url.Values.Encode\<close>.
\<close>

type_synonym 's transport = "Request \<Rightarrow> 's \<Rightarrow> (error + Response) \<times> 's"

record lib =
  parse_time :: "string \<Rightarrow> time option"
  url_ok :: "string \<Rightarrow> bool"
  values_encode :: "Values \<Rightarrow> string"

definition Header_Set :: "string \<Rightarrow> string \<Rightarrow> Request \<Rightarrow> Request" where
  "Header_Set k v req = req\<lparr>Header := AList.update k v (Header req)\<rparr>"

definition Header_Get :: "string \<Rightarrow> Request \<Rightarrow> string option" where
  "Header_Get k req = map_of (Header req) k"

definition NewRequestWithContext ::
  "lib \<Rightarrow> string \<Rightarrow> string \<Rightarrow> markup option \<Rightarrow> error + Request" where
  "NewRequestWithContext L m u b =
     (if url_ok L u then Inr \<lparr>Method = m, URL = u, Header = [], ReqBody = b\<rparr>
      else Inl RequestError)"

text \<open>
  \<open>NewService\<close> wraps the client's transport in \<open>trapnsport\<close>, whose \<open>RoundTrip\<close>
  adds the protocol version to every request and the content type to a \<open>POST\<close> or
  \<open>PUT\<close>. \<open>Do\<close> is \<open>s.base.Do\<close>: the wrapped transport around the injected one.
\<close>

definition RoundTrip :: "'s transport \<Rightarrow> 's transport" where
  "RoundTrip base req s =
     (let req1 = Header_Set ''GData-Version'' ''3.0'' req;
          req2 = (if Method req1 = ''POST'' \<or> Method req1 = ''PUT''
                  then Header_Set ''Content-Type'' ''application/atom+xml'' req1
                  else req1)
      in base req2 s)"

definition Do :: "'s transport \<Rightarrow> 's transport" where
  "Do base req s = RoundTrip base req s"

record service =
  endpoint :: string
  projection :: string

definition setDefaultProjection :: "string \<Rightarrow> string" where
  "setDefaultProjection p = (if p = [] then ''full'' else p)"

definition NewService :: "string \<Rightarrow> string \<Rightarrow> service" where
  "NewService domain defaultProjection =
     \<lparr>endpoint = ''https://www.google.com/m8/feeds/contacts/'' @ domain,
      projection = setDefaultProjection defaultProjection\<rparr>"

definition getPojection :: "service \<Rightarrow> string \<Rightarrow> string" where
  "getPojection sv p = (if p \<noteq> [] then p else projection sv)"

text \<open>
  Every operation returns its result, the state of the world after it, and the
  requests it handed to \<open>Do\<close>, in order. The result of \<open>getContact\<close> is an error, or
  \<open>None\<close> for the pair \<open>(nil, nil)\<close>, or the decoded contact.
\<close>

definition getContact ::
  "lib \<Rightarrow> 's transport \<Rightarrow> service \<Rightarrow> string \<Rightarrow> string \<Rightarrow> string \<Rightarrow> string \<Rightarrow> 's
     \<Rightarrow> (error + ContactKind option) \<times> 's \<times> Request list" where
  "getContact L base sv ident proj tag errPrefix s =
     (case NewRequestWithContext L ''GET''
             (endpoint sv @ ''/'' @ getPojection sv proj @ ''/'' @ ident) None of
        Inl err \<Rightarrow> (Inl (Wrapped errPrefix err), s, [])
      | Inr req0 \<Rightarrow>
          (let req = (if tag \<noteq> [] \<and> tag \<noteq> ''*''
                      then Header_Set ''If-None-Match'' tag req0 else req0)
           in case Do base req s of
                (Inl err, s') \<Rightarrow> (Inl (Wrapped errPrefix err), s', [req])
              | (Inr res, s') \<Rightarrow>
                  if StatusCode res = 304 then (Inr None, s', [req])
                  else
                    (case Body res of
                       None \<Rightarrow> (Inl XmlError, s', [req])
                     | Some e \<Rightarrow>
                         (case ContactKind_UnmarshalXML (parse_time L) ContactKind_zero e of
                            Inl err \<Rightarrow> (Inl err, s', [req])
                          | Inr contact \<Rightarrow> (Inr (Some contact), s', [req])))))"

definition GetContact ::
  "lib \<Rightarrow> 's transport \<Rightarrow> service \<Rightarrow> string \<Rightarrow> string \<Rightarrow> string \<Rightarrow> 's
     \<Rightarrow> (error + ContactKind option) \<times> 's \<times> Request list" where
  "GetContact L base sv ident proj tag s =
     getContact L base sv ident proj tag ''could not get a contact from GetContact'' s"

text \<open>
  \<open>UpdateContact\<close> and \<open>DeleteContact\<close> read \<open>op.etag\<close> right after the error
  check of \<open>getContact\<close>; when \<open>getContact\<close> has returned \<open>(nil, nil)\<close> that read
  is a nil pointer dereference. \<open>DeleteContact\<close> returns \<open>None\<close> for \<open>nil\<close>.
  The argument \<open>p\<close> of \<open>UpdateContact\<close> is the contact its pointer refers to.
  Encoding it into a buffer cannot fail, so the error return after \<open>enc.Encode\<close> has
  no branch here.
\<close>

definition UpdateContact ::
  "lib \<Rightarrow> 's transport \<Rightarrow> service \<Rightarrow> string \<Rightarrow> string \<Rightarrow> ContactKind \<Rightarrow> 's
     \<Rightarrow> (error + ContactKind) \<times> 's \<times> Request list" where
  "UpdateContact L base sv ident tag p s =
     (case getContact L base sv ident ''full'' []
             ''UpdateContact error: could not get a contact'' s of
        (Inl err, s1, tr) \<Rightarrow> (Inl err, s1, tr)
      | (Inr None, s1, tr) \<Rightarrow> (Inl NilPointerPanic, s1, tr)
      | (Inr (Some op), s1, tr) \<Rightarrow>
          if etag op \<noteq> tag \<and> tag \<noteq> ''*''
          then (Inl (Errorf ''UpdateContact error: etag not match''), s1, tr)
          else
            (case NewRequestWithContext L ''PUT'' (editLink op)
                    (Some (ContactKind_MarshalXML p)) of
               Inl err \<Rightarrow>
                 (Inl (Wrapped ''could not create a HTTP request from UpdateContact'' err),
                  s1, tr)
             | Inr req0 \<Rightarrow>
                 (let req = Header_Set ''If-Match'' tag req0
                  in case Do base req s1 of
                       (Inl err, s2) \<Rightarrow> (Inl err, s2, tr @ [req])
                     | (Inr res, s2) \<Rightarrow>
                         if StatusCode res \<noteq> 200
                         then (Inl (Errorf (''expect get HTTP status OK, got: '' @ Status res)),
                               s2, tr @ [req])
                         else
                           (case Body res of
                              None \<Rightarrow> (Inl XmlError, s2, tr @ [req])
                            | Some e \<Rightarrow>
                                (ContactKind_UnmarshalXML (parse_time L) ContactKind_zero e,
                                 s2, tr @ [req])))))"

definition DeleteContact ::
  "lib \<Rightarrow> 's transport \<Rightarrow> service \<Rightarrow> string \<Rightarrow> string \<Rightarrow> 's
     \<Rightarrow> error option \<times> 's \<times> Request list" where
  "DeleteContact L base sv ident tag s =
     (case getContact L base sv ident ''thin'' []
             ''could not get a contact from DeleteContact'' s of
        (Inl err, s1, tr) \<Rightarrow> (Some err, s1, tr)
      | (Inr None, s1, tr) \<Rightarrow> (Some NilPointerPanic, s1, tr)
      | (Inr (Some op), s1, tr) \<Rightarrow>
          if etag op \<noteq> tag \<and> tag \<noteq> ''*''
          then (Some (Errorf ''UpdateContact error: etag not match''), s1, tr)
          else
            (case NewRequestWithContext L ''DELETE'' (editLink op) None of
               Inl err \<Rightarrow>
                 (Some (Wrapped ''DeleteContact error: could not create a HTTP request'' err),
                  s1, tr)
             | Inr req0 \<Rightarrow>
                 (let req = Header_Set ''If-Match'' tag req0
                  in case Do base req s1 of
                       (Inl err, s2) \<Rightarrow>
                         (Some (Wrapped ''DeleteContact error: failed to call'' err),
                          s2, tr @ [req])
                     | (Inr res, s2) \<Rightarrow> (None, s2, tr @ [req]))))"

subsection \<open>ListContacts\<close>

record QueryStatus =
  Updated :: time
  Etag :: string

record feed =
  Etag :: string
  Updated :: time
  Links :: "Link list"
  Contacts :: "ContactKind list"

text \<open>
  The local struct \<open>feed\<close> has no \<open>XMLName\<close>, so any root element is accepted.
  \<open>updated\<close> and \<open>link\<close> children are taken in any name space, \<open>entry\<close>
  children in the Atom name space; each entry is decoded by
  \<open>ContactKind.UnmarshalXML\<close> into a zero value, and its error fails the whole page.
\<close>

definition feed_Decode :: "(string \<Rightarrow> time option) \<Rightarrow> elem \<Rightarrow> error + feed" where
  "feed_Decode pt start =
     bindE (decode_time pt (elems_local ''updated'' (elem_children start))) (\<lambda>upd.
     bindE (mapE Link_Unmarshal (elems_local ''link'' (elem_children start))) (\<lambda>links.
     bindE (mapE (ContactKind_UnmarshalXML pt ContactKind_zero)
              (elems_ns atom_ns ''entry'' (elem_children start))) (\<lambda>contacts.
       Inr \<lparr>feed.Etag = attr_string ''etag'' (elem_attrs start),
            feed.Updated = upd,
            feed.Links = links,
            feed.Contacts = contacts\<rparr>)))"

text \<open>
  The loop over \<open>f.Links\<close>, with the variable \<open>req\<close> as its state: a \<open>next\<close> link
  replaces \<open>req\<close> by a \<open>GET\<close> of its \<open>Href\<close> (or by \<open>nil\<close> when the request
  cannot be built, since the error is dropped) and leaves the loop; any other link
  sets \<open>req\<close> to \<open>nil\<close>. With no link at all the body never runs and \<open>req\<close>
  keeps its value.
\<close>

fun links_loop :: "lib \<Rightarrow> Request option \<Rightarrow> Link list \<Rightarrow> Request option" where
  "links_loop L req [] = req"
| "links_loop L req (l # ls) =
     (if Link.Related l = ''next''
      then (case NewRequestWithContext L ''GET'' (Link.Href l) None of
              Inl err \<Rightarrow> None
            | Inr r \<Rightarrow> Some r)
      else links_loop L None ls)"

text \<open>
  The loop \<open>for req != nil\<close> may run forever, so it takes fuel, one unit for each
  iteration. The result \<open>None\<close> says that the loop was still running when the fuel
  ran out; the requests issued until then are returned with it.
\<close>

fun ListContacts_loop ::
  "lib \<Rightarrow> 's transport \<Rightarrow> nat \<Rightarrow> Request option \<Rightarrow> ContactKind list \<Rightarrow> QueryStatus \<Rightarrow> 's
     \<Rightarrow> Request list
     \<Rightarrow> (error + ContactKind list \<times> QueryStatus) option \<times> 's \<times> Request list" where
  "ListContacts_loop L base fuel None ret st s tr = (Some (Inr (ret, st)), s, tr)"
| "ListContacts_loop L base 0 (Some req) ret st s tr = (None, s, tr)"
| "ListContacts_loop L base (Suc fuel) (Some req) ret st s tr =
     (case Do base req s of
        (Inl err, s') \<Rightarrow> (Some (Inl err), s', tr @ [req])
      | (Inr res, s') \<Rightarrow>
          (case (case Body res of None \<Rightarrow> Inl XmlError
                 | Some e \<Rightarrow> feed_Decode (parse_time L) e) of
             Inl err \<Rightarrow> (Some (Inl (Wrapped ''ListContact error'' err)), s', tr @ [req])
           | Inr f \<Rightarrow>
               (let ret' = ret @ map Clone (feed.Contacts f);
                    req' = links_loop L (Some req) (feed.Links f);
                    st' = (if req' = None
                           then st\<lparr>QueryStatus.Etag := feed.Etag f,
                                   QueryStatus.Updated := feed.Updated f\<rparr>
                           else st)
                in ListContacts_loop L base fuel req' ret' st' s' (tr @ [req]))))"

definition ListContacts ::
  "lib \<Rightarrow> 's transport \<Rightarrow> service \<Rightarrow> nat \<Rightarrow> string \<Rightarrow> string \<Rightarrow> (Values \<Rightarrow> Values) list \<Rightarrow> 's
     \<Rightarrow> (error + ContactKind list \<times> QueryStatus) option \<times> 's \<times> Request list" where
  "ListContacts L base sv fuel proj tag queries s =
     (let u = (if length queries > 0
               then endpoint sv @ ''/'' @ getPojection sv proj @ ''?''
                    @ values_encode L (foldl (\<lambda>params q. q params) (withStrict []) queries)
               else endpoint sv @ ''/'' @ getPojection sv proj)
      in case NewRequestWithContext L ''GET'' u None of
           Inl err \<Rightarrow>
             (Some (Inl (Wrapped ''ListContacts error: could not create a HTTP request'' err)),
              s, [])
         | Inr req0 \<Rightarrow>
             (let req = (if tag \<noteq> [] then Header_Set ''If-None-Match'' tag req0 else req0)
              in ListContacts_loop L base fuel (Some req) []
                   \<lparr>QueryStatus.Updated = 0, QueryStatus.Etag = []\<rparr> s []))"

section \<open>Notions used in the statements\<close>

text \<open>
  \<open>roundtrip dec m\<close> writes the markup \<open>m\<close> as a document of its own, parses it and
  decodes the root element with \<open>dec\<close>. \<open>child_tags\<close> and \<open>attr_names\<close> list what
  an encoded element carries.
\<close>

definition roundtrip :: "(elem \<Rightarrow> error + 'a) \<Rightarrow> markup \<Rightarrow> error + 'a" where
  "roundtrip dec m = (case wire Map.empty m of None \<Rightarrow> Inl XmlError | Some e \<Rightarrow> dec e)"

definition child_tags :: "markup \<Rightarrow> string list" where
  "child_tags m = map markup_tag (markup_children m)"

definition attr_names :: "markup \<Rightarrow> string list" where
  "attr_names m = map fst (markup_attrs m)"

text \<open>Shapes of encoded fields, for the proofs about the parser.\<close>

definition opt_str :: "string \<Rightarrow> string list" where
  "opt_str v = (if v = [] then [] else [v])"

definition opt_true :: "bool \<Rightarrow> string list" where
  "opt_true b = (if b then [''true''] else [])"

definition plain_attrs :: "(string \<times> string) list \<Rightarrow> (xml_Name \<times> string) list" where
  "plain_attrs as = map (\<lambda>(k, v). (([], k), v)) as"

definition plain_attr :: "string \<times> string \<Rightarrow> bool" where
  "plain_attr a = (CHR '':'' \<notin> set (fst a) \<and> fst a \<noteq> ''xmlns'')"

definition gd_children :: "(string \<rightharpoonup> string) \<Rightarrow> markup list \<Rightarrow> elem list" where
  "gd_children ns cs =
     map (\<lambda>c. Elem (translate ns True (''gd'', drop 3 (markup_tag c))) [] [] (markup_chardata c)) cs"

definition gd_leaf :: "markup \<Rightarrow> bool" where
  "gd_leaf c = (take 3 (markup_tag c) = ''gd:'' \<and> CHR '':'' \<notin> set (drop 3 (markup_tag c))
      \<and> drop 3 (markup_tag c) \<noteq> [] \<and> markup_attrs c = [] \<and> markup_children c = [])"

text \<open>
  A chain of feed pages as the client meets it: \<open>served L base req s pages\<close> says
  that the request \<open>req\<close>, sent in state \<open>s\<close>, is answered by the first page,
  that every page but the last carries a \<open>next\<close> link whose target
  \<open>NewRequestWithContext\<close> accepts and that a \<open>GET\<close> of this link is answered by
  the page after it, and that the last page carries links but no \<open>next\<close> link.
\<close>

definition has_next :: "feed \<Rightarrow> bool" where
  "has_next f = list_ex (\<lambda>l. Link.Related l = ''next'') (feed.Links f)"

definition next_href :: "feed \<Rightarrow> string" where
  "next_href f = (case filter (\<lambda>l. Link.Related l = ''next'') (feed.Links f) of
                    [] \<Rightarrow> [] | l # ls \<Rightarrow> Link.Href l)"

fun served :: "lib \<Rightarrow> 's transport \<Rightarrow> Request \<Rightarrow> 's \<Rightarrow> feed list \<Rightarrow> bool" where
  "served L base req s [] = False"
| "served L base req s (f # fs) =
     (case Do base req s of
        (Inl err, s') \<Rightarrow> False
      | (Inr res, s') \<Rightarrow>
          (case Body res of
             None \<Rightarrow> False
           | Some e \<Rightarrow>
               feed_Decode (parse_time L) e = Inr f
               \<and> (if fs = [] then feed.Links f \<noteq> [] \<and> \<not> has_next f
                   else has_next f \<and> url_ok L (next_href f)
                        \<and> served L base
                             \<lparr>Method = ''GET'', URL = next_href f, Header = [], ReqBody = None\<rparr>
                             s' fs)))"

section \<open>Example data\<close>

text \<open>
  Concrete inputs for the statements below: a library whose timestamp parser accepts one
  timestamp and whose request constructor accepts \<open>https\<close> URLs, a service for the
  domain \<open>example.com\<close>, entries and feed pages, and HTTP clients that always give
  the same answer.
\<close>

definition example_pt :: "string \<Rightarrow> time option" where
  "example_pt s = (if s = ''2023-08-18T09:54:17Z'' then Some 1692352457 else None)"

definition example_event_entry :: elem where
  "example_event_entry =
     Elem (atom_ns, ''entry'') []
       [Elem (atom_ns, ''category'')
          [(([], ''scheme''), ''http://schemas.google.com/g/2005#kind''),
           (([], ''term''), ''http://schemas.google.com/g/2005#event'')] [] []] []"

definition example_props_entry :: elem where
  "example_props_entry =
     Elem (atom_ns, ''entry'') []
       [Elem (atom_ns, ''category'')
          [(([], ''scheme''), ''http://schemas.google.com/g/2005#kind''),
           (([], ''term''), ''http://schemas.google.com/contact/2008#contact'')] [] [],
        Elem (gd_ns, ''extendedProperty'') [(([], ''name''), ''color''), (([], ''value''), ''red'')] [] [],
        Elem (gd_ns, ''extendedProperty'') [(([], ''name''), ''size''), (([], ''value''), ''XL'')] [] [],
        Elem (gd_ns, ''extendedProperty'') [(([], ''name''), ''color''), (([], ''value''), ''blue'')] [] []]
       []"

definition example_lib :: lib where
  "example_lib = \<lparr>parse_time = example_pt,
     url_ok = (\<lambda>u. HasPrefix u ''https://''),
     values_encode = (\<lambda>v. concat (map (\<lambda>(k, vs). k @ ''='' @ concat vs @ ''&'') v))\<rparr>"

definition example_service :: service where
  "example_service = NewService ''example.com'' []"

definition not_modified_transport :: "unit transport" where
  "not_modified_transport req s =
     (Inr \<lparr>StatusCode = 304, Status = ''304 Not Modified'', Body = None\<rparr>, s)"

definition example_contact_entry :: elem where
  "example_contact_entry =
     Elem (atom_ns, ''entry'') [((gd_ns, ''etag''), ''v2'')]
       [Elem (atom_ns, ''category'')
          [(([], ''scheme''), ''http://schemas.google.com/g/2005#kind''),
           (([], ''term''), ''http://schemas.google.com/contact/2008#contact'')] [] [],
        Elem (atom_ns, ''link'')
          [(([], ''rel''), ''edit''),
           (([], ''href''), ''https://www.google.com/m8/feeds/contacts/example.com/full/c1'')] [] [],
        Elem (gd_ns, ''email'') [(([], ''address''), ''liz@gmail.com'')] [] []]
       []"

definition contact_transport :: "unit transport" where
  "contact_transport req s =
     (Inr \<lparr>StatusCode = 200, Status = ''200 OK'', Body = Some example_contact_entry\<rparr>, s)"

definition empty_feed :: elem where
  "empty_feed = Elem (atom_ns, ''feed'') [] [] []"

definition empty_feed_transport :: "unit transport" where
  "empty_feed_transport req s =
     (Inr \<lparr>StatusCode = 200, Status = ''200 OK'', Body = Some empty_feed\<rparr>, s)"

definition list_request :: Request where
  "list_request = \<lparr>Method = ''GET'',
     URL = ''https://www.google.com/m8/feeds/contacts/example.com/full'',
     Header = [], ReqBody = None\<rparr>"

definition one_page_feed :: elem where
  "one_page_feed =
     Elem (atom_ns, ''feed'') [((gd_ns, ''etag''), ''f1'')]
       [Elem (atom_ns, ''updated'') [] [] ''2023-08-18T09:54:17Z'',
        Elem (atom_ns, ''link'')
          [(([], ''rel''), ''self''),
           (([], ''href''), ''https://www.google.com/m8/feeds/contacts/example.com/full'')] [] [],
        example_contact_entry]
       []"

definition one_page_transport :: "unit transport" where
  "one_page_transport req s =
     (Inr \<lparr>StatusCode = 200, Status = ''200 OK'', Body = Some one_page_feed\<rparr>, s)"

definition example_bare_entry :: elem where
  "example_bare_entry = Elem (atom_ns, ''entry'') [] [] []"

text \<open>The first entry of \<open>TestContactKind\<close>, as the parser delivers it.\<close>

definition test_entry :: elem where
  "test_entry =
     Elem (atom_ns, ''entry'')
       [(([], ''xmlns''), ''http://www.w3.org/2005/Atom''),
        ((''xmlns'', ''gd''), ''http://schemas.google.com/g/2005'')]
       [Elem (atom_ns, ''category'')
          [(([], ''scheme''), ''http://schemas.google.com/g/2005#kind''),
           (([], ''term''), ''http://schemas.google.com/contact/2008#contact'')] [] [],
        Elem (atom_ns, ''title'') [] [] ''Elizabeth Bennet'',
        Elem (atom_ns, ''id'') [] []
          ''http://www.google.com/m8/feeds/contacts/legispect.com/base/20017e218fa39973'',
        Elem (atom_ns, ''updated'') [] [] ''2023-08-18T09:54:17.202Z'',
        Elem (atom_ns, ''content'') [] []
          ''My good friend, Liz.  A little quick to judge sometimes, but nice girl.'',
        Elem (gd_ns, ''email'')
          [(([], ''rel''), ''http://schemas.google.com/g/2005#work''),
           (([], ''primary''), ''true''), (([], ''address''), ''liz@gmail.com'')] [] [],
        Elem (gd_ns, ''email'')
          [(([], ''rel''), ''http://schemas.google.com/g/2005#home''),
           (([], ''address''), ''liz@example.org'')] [] [],
        Elem (gd_ns, ''phoneNumber'')
          [(([], ''rel''), ''http://schemas.google.com/g/2005#work''),
           (([], ''primary''), ''true'')] [] ([CHR 0x0A] @ ''    (206)555-1212'' @ [CHR 0x0A, CHR 0x20, CHR 0x20]),
        Elem (gd_ns, ''phoneNumber'')
          [(([], ''rel''), ''http://schemas.google.com/g/2005#home'')] []
          ([CHR 0x0A] @ ''    (206)555-1213'' @ [CHR 0x0A, CHR 0x20, CHR 0x20]),
        Elem (gd_ns, ''phoneNumber'')
          [(([], ''rel''), ''http://schemas.google.com/g/2005#mobile'')] []
          ([CHR 0x0A] @ ''    (206) 555-1212'' @ [CHR 0x0A, CHR 0x20, CHR 0x20]),
        Elem (gd_ns, ''im'')
          [(([], ''rel''), ''http://schemas.google.com/g/2005#home''),
           (([], ''protocol''), ''http://schemas.google.com/g/2005#GOOGLE_TALK''),
           (([], ''address''), ''liz@gmail.com'')] [] [],
        Elem (gd_ns, ''structuredPostalAddress'')
          [(([], ''rel''), ''http://schemas.google.com/g/2005#work''),
           (([], ''primary''), ''true'')]
          [Elem (gd_ns, ''street'') [] [] ''1600 Amphitheatre Pkwy'',
           Elem (gd_ns, ''city'') [] [] ''Mountain View'',
           Elem (gd_ns, ''region'') [] [] ''CA'',
           Elem (gd_ns, ''postcode'') [] [] ''94043''] [],
        Elem (gd_ns, ''structuredPostalAddress'')
          [(([], ''rel''), ''http://schemas.google.com/g/2005#home'')]
          [Elem (gd_ns, ''street'') [] [] ''800 Main Street'',
           Elem (gd_ns, ''city'') [] [] ''Mountain View'',
           Elem (gd_ns, ''region'') [] [] ''CA'',
           Elem (gd_ns, ''postcode'') [] [] ''94041''] []]
       []"

section \<open>Basic facts\<close>

lemma append_all_eq: "append_all dst src = dst @ src"
  unfolding append_all_def by (induction src arbitrary: dst) simp_all

lemma map_of_fold_update:
  "map_of (foldl (\<lambda>m (k, v). AList.update k v m) acc ps) = map_of acc ++ map_of (rev ps)"
proof (induction ps arbitrary: acc)
  case Nil
  show ?case by simp
next
  case (Cons p ps)
  obtain k v where p: "p = (k, v)" by (cases p)
  have "map_of (foldl (\<lambda>m (k, v). AList.update k v m) acc (p # ps))
        = map_of (AList.update k v acc) ++ map_of (rev ps)"
    using Cons.IH [of "AList.update k v acc"] by (simp add: p)
  also have "\<dots> = map_of acc ++ map_of (rev (p # ps))"
    by (simp add: p update_conv' fun_eq_iff map_add_def split: option.splits)
  finally show ?case .
qed

lemma dropWhile_fix: "ys = [] \<or> \<not> P (hd ys) \<Longrightarrow> dropWhile P ys = ys"
  by (cases ys) auto

lemma dropWhile_self: "dropWhile P (dropWhile P ys) = dropWhile P ys"
  by (rule dropWhile_fix) (metis hd_dropWhile)

lemma hd_rev_dropWhile_rev:
  assumes "rev (dropWhile P (rev u)) \<noteq> []"
  shows "hd (rev (dropWhile P (rev u))) = hd u"
proof -
  have "rev u = takeWhile P (rev u) @ dropWhile P (rev u)" by simp
  then have "u = rev (dropWhile P (rev u)) @ rev (takeWhile P (rev u))"
    by (metis rev_append rev_rev_ident)
  then show ?thesis using assms by (metis hd_append2)
qed

lemma trimmed_front:
  assumes u: "u = [] \<or> \<not> P (hd u)" and t: "t = rev (dropWhile P (rev u))"
  shows "t = [] \<or> \<not> P (hd t)"
proof (cases "t = []")
  case True
  then show ?thesis by blast
next
  case False
  have "hd t = hd u" using False hd_rev_dropWhile_rev [of P u] unfolding t by blast
  moreover have "u \<noteq> []"
  proof
    assume "u = []"
    then have "t = []" unfolding t by simp
    with False show False by blast
  qed
  ultimately show ?thesis using u by metis
qed

lemma trim_idem:
  "rev (dropWhile P (rev (dropWhile P (rev (dropWhile P (rev (dropWhile P s)))))))
   = rev (dropWhile P (rev (dropWhile P s)))"
proof -
  define u where "u = dropWhile P s"
  define t where "t = rev (dropWhile P (rev u))"
  have "u = [] \<or> \<not> P (hd u)" unfolding u_def by (metis hd_dropWhile)
  then have "t = [] \<or> \<not> P (hd t)" using t_def by (rule trimmed_front)
  then have 1: "dropWhile P t = t" by (rule dropWhile_fix)
  have 2: "dropWhile P (rev t) = rev t" unfolding t_def by (simp add: dropWhile_self)
  have "rev (dropWhile P (rev (dropWhile P t))) = t" unfolding 1 2 by simp
  then show ?thesis unfolding t_def u_def .
qed

lemma TrimSpace_idem: "TrimSpace (TrimSpace s) = TrimSpace s"
  unfolding TrimSpace_def by (rule trim_idem)

subsection \<open>Decoding an entry\<close>

lemma mapE_total: "(\<And>x. f x = Inr (g x)) \<Longrightarrow> mapE f xs = Inr (map g xs)"
  by (induction xs) simp_all

lemma map_of_rev_last:
  "map_of (rev ps) k =
     (if filter (\<lambda>p. fst p = k) ps = [] then None
      else Some (snd (last (filter (\<lambda>p. fst p = k) ps))))"
proof (induction ps rule: rev_induct)
  case Nil
  show ?case by simp
next
  case (snoc p ps)
  show ?case using snoc.IH by (cases p) simp
qed

lemma set_ExtendedProperty_map_of:
  "map_of (set_ExtendedProperty pairs)
     = map_of (rev (map (\<lambda>p. (GDExtendedProperty.Name p, GDExtendedProperty.Value p)) pairs))"
proof -
  have "set_ExtendedProperty pairs
        = foldl (\<lambda>m (k, v). AList.update k v m) []
            (map (\<lambda>p. (GDExtendedProperty.Name p, GDExtendedProperty.Value p)) pairs)"
    unfolding set_ExtendedProperty_def by (simp add: foldl_map)
  then show ?thesis by (simp add: map_of_fold_update)
qed

lemma ContactKind_UnmarshalXML_InrD:
  assumes "ContactKind_UnmarshalXML pt c start = Inr c'"
  shows "\<exists>obj. decodeContactKind_DecodeElement pt start = Inr obj
           \<and> o_Category_Term obj = contactTerm
           \<and> ContactKind.ExtendedProperty c' = set_ExtendedProperty (o_ExtendedProperty obj)"
  using assms unfolding ContactKind_UnmarshalXML_def
  by (auto split: sum.splits if_splits simp: Let_def)

lemma bindE_InrD: "bindE r f = Inr y \<Longrightarrow> \<exists>v. r = Inr v \<and> f v = Inr y"
  unfolding bindE_def by (cases r) simp_all

lemma DecodeElement_ExtendedProperty:
  assumes "decodeContactKind_DecodeElement pt start = Inr obj"
  shows "o_ExtendedProperty obj =
      map (\<lambda>e. \<lparr>GDExtendedProperty.Name = attr_string ''name'' (elem_attrs e),
          GDExtendedProperty.Value = attr_string ''value'' (elem_attrs e),
          GDExtendedProperty.Realm = attr_string ''realm'' (elem_attrs e)\<rparr>)
        (elems_ns gd_ns ''extendedProperty'' (elem_children start))"
proof -
  have m: "mapE GDExtendedProperty_Unmarshal es =
      Inr (map (\<lambda>e. \<lparr>GDExtendedProperty.Name = attr_string ''name'' (elem_attrs e),
          GDExtendedProperty.Value = attr_string ''value'' (elem_attrs e),
          GDExtendedProperty.Realm = attr_string ''realm'' (elem_attrs e)\<rparr>) es)" for es
    by (rule mapE_total) (simp add: GDExtendedProperty_Unmarshal_def)
  show ?thesis
    using assms unfolding decodeContactKind_DecodeElement_def m
    by (auto split: if_splits dest!: bindE_InrD)
qed

lemma DecodeElement_Category_Term:
  assumes "decodeContactKind_DecodeElement pt start = Inr obj"
  shows "o_Category_Term obj = decode_Category_Term (elem_children start)"
  using assms unfolding decodeContactKind_DecodeElement_def
  by (auto split: if_splits dest!: bindE_InrD)

lemma no_category:
  "elems_ns atom_ns ''category'' cs = [] \<Longrightarrow> decode_Category_Term cs \<noteq> contactTerm"
  by (simp add: decode_Category_Term_def copy_string_def contactTerm_def)

subsection \<open>What the encoder writes\<close>

lemma tag_elem_omitempty:
  "(x \<in> markup_tag ` set (elem_omitempty t v)) = (x = t \<and> v \<noteq> [])"
  by (auto simp: elem_omitempty_def)

lemma name_attr_omitempty:
  "(x \<in> fst ` set (attr_omitempty t v)) = (x = t \<and> v \<noteq> [])"
  by (auto simp: attr_omitempty_def)

lemma name_attr_bool_omitempty:
  "(x \<in> fst ` set (attr_bool_omitempty t b)) = (x = t \<and> b)"
  by (auto simp: attr_bool_omitempty_def)

lemma name_attr_always:
  "(x \<in> fst ` set (attr_always t v)) = (x = t)"
  by (auto simp: attr_always_def)

lemmas omit_simps = tag_elem_omitempty name_attr_omitempty name_attr_bool_omitempty
  name_attr_always child_tags_def attr_names_def

lemma omit_GDName:
  "(''gd:givenName'' \<in> set (child_tags (GDName_MarshalXML n))) = (GDName.GivenName n \<noteq> [])"
  "(''gd:additionalName'' \<in> set (child_tags (GDName_MarshalXML n))) = (GDName.AdditionalName n \<noteq> [])"
  "(''gd:familyName'' \<in> set (child_tags (GDName_MarshalXML n))) = (GDName.FamilyName n \<noteq> [])"
  "(''gd:namePrefix'' \<in> set (child_tags (GDName_MarshalXML n))) = (GDName.Prefix n \<noteq> [])"
  "(''gd:nameSuffix'' \<in> set (child_tags (GDName_MarshalXML n))) = (GDName.Suffix n \<noteq> [])"
  "(''gd:fullName'' \<in> set (child_tags (GDName_MarshalXML n))) = (TrimSpace (GDName.FullName n) \<noteq> [])"
  by (simp_all add: GDName_MarshalXML_def omit_simps)

lemma omit_GDEmail:
  "''address'' \<in> set (attr_names (GDEmail_MarshalXML m))"
  "(''rel'' \<in> set (attr_names (GDEmail_MarshalXML m))) = (GDEmail.Related m \<noteq> [])"
  "(''label'' \<in> set (attr_names (GDEmail_MarshalXML m))) = (GDEmail.Label m \<noteq> [])"
  "(''primary'' \<in> set (attr_names (GDEmail_MarshalXML m))) = GDEmail.Primary m"
  "(''displayName'' \<in> set (attr_names (GDEmail_MarshalXML m))) = (GDEmail.DisplayName m \<noteq> [])"
  by (simp_all add: GDEmail_MarshalXML_def omit_simps)

lemma omit_GDPhoneNumber:
  "(''rel'' \<in> set (attr_names (GDPhoneNumber_MarshalXML p))) = (GDPhoneNumber.Related p \<noteq> [])"
  "(''label'' \<in> set (attr_names (GDPhoneNumber_MarshalXML p))) = (GDPhoneNumber.Label p \<noteq> [])"
  "(''uri'' \<in> set (attr_names (GDPhoneNumber_MarshalXML p))) = (GDPhoneNumber.URI p \<noteq> [])"
  "(''primary'' \<in> set (attr_names (GDPhoneNumber_MarshalXML p))) = GDPhoneNumber.Primary p"
  "markup_chardata (GDPhoneNumber_MarshalXML p) = TrimSpace (GDPhoneNumber.DialNumber p)"
  by (simp_all add: GDPhoneNumber_MarshalXML_def omit_simps)

lemma omit_GDIM:
  "''address'' \<in> set (attr_names (GDIM_MarshalXML im))"
  "(''label'' \<in> set (attr_names (GDIM_MarshalXML im))) = (GDIM.Label im \<noteq> [])"
  "(''rel'' \<in> set (attr_names (GDIM_MarshalXML im))) = (GDIM.Related im \<noteq> [])"
  "(''protocol'' \<in> set (attr_names (GDIM_MarshalXML im))) = (GDIM.Protocol im \<noteq> [])"
  "(''primary'' \<in> set (attr_names (GDIM_MarshalXML im))) = GDIM.Primary im"
  by (simp_all add: GDIM_MarshalXML_def omit_simps)

lemma omit_GDExtendedProperty:
  "''name'' \<in> set (attr_names (GDExtendedProperty_MarshalXML x))"
  "(''value'' \<in> set (attr_names (GDExtendedProperty_MarshalXML x))) = (GDExtendedProperty.Value x \<noteq> [])"
  "(''realm'' \<in> set (attr_names (GDExtendedProperty_MarshalXML x))) = (GDExtendedProperty.Realm x \<noteq> [])"
  by (simp_all add: GDExtendedProperty_MarshalXML_def omit_simps)

lemma omit_address_attrs:
  "(''rel'' \<in> set (attr_names (GDStructuredPostalAddress_MarshalXML a))) = (GDStructuredPostalAddress.Related a \<noteq> [])"
  "(''mailClass'' \<in> set (attr_names (GDStructuredPostalAddress_MarshalXML a))) = (GDStructuredPostalAddress.MailClass a \<noteq> [])"
  "(''usage'' \<in> set (attr_names (GDStructuredPostalAddress_MarshalXML a))) = (GDStructuredPostalAddress.Usage a \<noteq> [])"
  "(''label'' \<in> set (attr_names (GDStructuredPostalAddress_MarshalXML a))) = (GDStructuredPostalAddress.Label a \<noteq> [])"
  "(''primary'' \<in> set (attr_names (GDStructuredPostalAddress_MarshalXML a))) = GDStructuredPostalAddress.Primary a"
  by (simp_all add: GDStructuredPostalAddress_MarshalXML_def omit_simps)

lemma omit_address_children:
  "(''gd:agent'' \<in> set (child_tags (GDStructuredPostalAddress_MarshalXML a))) = (GDStructuredPostalAddress.Agent a \<noteq> [])"
  "(''gd:housename'' \<in> set (child_tags (GDStructuredPostalAddress_MarshalXML a))) = (GDStructuredPostalAddress.HouseName a \<noteq> [])"
  "(''gd:pobox'' \<in> set (child_tags (GDStructuredPostalAddress_MarshalXML a))) = (GDStructuredPostalAddress.Pobox a \<noteq> [])"
  "(''gd:neighborhood'' \<in> set (child_tags (GDStructuredPostalAddress_MarshalXML a))) = (GDStructuredPostalAddress.Neighborhood a \<noteq> [])"
  "(''gd:city'' \<in> set (child_tags (GDStructuredPostalAddress_MarshalXML a))) = (GDStructuredPostalAddress.City a \<noteq> [])"
  "(''gd:street'' \<in> set (child_tags (GDStructuredPostalAddress_MarshalXML a))) = (GDStructuredPostalAddress.Street a \<noteq> [])"
  "(''gd:region'' \<in> set (child_tags (GDStructuredPostalAddress_MarshalXML a))) = (GDStructuredPostalAddress.Region a \<noteq> [])"
  "(''gd:subregion'' \<in> set (child_tags (GDStructuredPostalAddress_MarshalXML a))) = (GDStructuredPostalAddress.SubRegion a \<noteq> [])"
  "(''gd:postcode'' \<in> set (child_tags (GDStructuredPostalAddress_MarshalXML a))) = (GDStructuredPostalAddress.PostCode a \<noteq> [])"
  "(''gd:country'' \<in> set (child_tags (GDStructuredPostalAddress_MarshalXML a))) = (GDStructuredPostalAddress.Country a \<noteq> [])"
  "(''gd:formattedAddress'' \<in> set (child_tags (GDStructuredPostalAddress_MarshalXML a))) = (GDStructuredPostalAddress.FormattedAddress a \<noteq> [])"
  by (simp_all add: GDStructuredPostalAddress_MarshalXML_def omit_simps)

lemma tag_simps [simp]:
  "markup_tag (GDName_MarshalXML n) = ''gd:name''"
  "markup_tag (GDEmail_MarshalXML m) = ''gd:email''"
  "markup_tag (GDPhoneNumber_MarshalXML p) = ''gd:phoneNumber''"
  "markup_tag (GDIM_MarshalXML im) = ''gd:im''"
  "markup_tag (GDStructuredPostalAddress_MarshalXML a) = ''gd:structuredPostalAddress''"
  "markup_tag (GDExtendedProperty_MarshalXML x) = ''gd:extendedProperty''"
  by (simp_all add: GDName_MarshalXML_def GDEmail_MarshalXML_def GDPhoneNumber_MarshalXML_def
      GDIM_MarshalXML_def GDStructuredPostalAddress_MarshalXML_def GDExtendedProperty_MarshalXML_def)

lemma fold_snoc_length:
  "length (foldl (\<lambda>acc (k, v). acc @ [f k v]) init ps) = length init + length ps"
  by (induction ps arbitrary: init) (simp_all split: prod.splits)

lemma child_tags_ContactKind:
  "child_tags (ContactKind_MarshalXML c) =
     [''gd:name'']
     @ replicate (length (ContactKind.Email c)) ''gd:email''
     @ replicate (2 * length (ContactKind.PhoneNumber c)) ''gd:phoneNumber''
     @ replicate (2 * length (ContactKind.StructuredPostalAddress c)) ''gd:structuredPostalAddress''
     @ [''content'', ''category'']
     @ replicate (2 * length (ContactKind.ExtendedProperty c)) ''gd:extendedProperty''
     @ replicate (2 * length (ContactKind.IM c)) ''gd:im''"
  unfolding child_tags_def ContactKind_MarshalXML_def fill_encodeContactKind_def Let_def
  by (simp add: o_def elem_always_def fold_snoc_length map_replicate_const replicate_add [symmetric] mult_2)

lemma omit_ContactKind:
  "''gd:name'' \<in> set (child_tags (ContactKind_MarshalXML c))"
  "''content'' \<in> set (child_tags (ContactKind_MarshalXML c))"
  "(''gd:email'' \<in> set (child_tags (ContactKind_MarshalXML c))) = (ContactKind.Email c \<noteq> [])"
  "(''gd:phoneNumber'' \<in> set (child_tags (ContactKind_MarshalXML c))) = (ContactKind.PhoneNumber c \<noteq> [])"
  "(''gd:structuredPostalAddress'' \<in> set (child_tags (ContactKind_MarshalXML c))) = (ContactKind.StructuredPostalAddress c \<noteq> [])"
  "(''gd:extendedProperty'' \<in> set (child_tags (ContactKind_MarshalXML c))) = (ContactKind.ExtendedProperty c \<noteq> [])"
  "(''gd:im'' \<in> set (child_tags (ContactKind_MarshalXML c))) = (ContactKind.IM c \<noteq> [])"
  unfolding child_tags_ContactKind by simp_all

subsection \<open>Parsing what the encoder wrote\<close>

lemma copy_string_opt_str [simp]: "copy_string [] (opt_str v) = v"
  by (simp add: copy_string_def opt_str_def)

lemma copy_string_single [simp]: "copy_string v0 [v] = v"
  by (simp add: copy_string_def)

lemma copy_string_Nil [simp]: "copy_string v0 [] = v0"
  by (simp add: copy_string_def)

lemma copy_bool_opt_true [simp]: "copy_bool False (opt_true b) = Inr b"
  by (simp add: opt_true_def copyValue_bool_def ParseBool_def TrimSpace_def isSpace_def)

lemma snd_translate [simp]: "snd (translate ns b n) = snd n"
  by (simp add: translate_def Let_def split: option.splits)

lemma nsname_plain: "CHR '':'' \<notin> set k \<Longrightarrow> nsname k = Some ([], k)"
  by (simp add: nsname_def count_list_0_iff)

lemma nsname_gd: "CHR '':'' \<notin> set l \<Longrightarrow> l \<noteq> [] \<Longrightarrow> nsname (''gd:'' @ l) = Some (''gd'', l)"
  by (simp add: nsname_def count_list_0_iff)

lemma translate_attr [simp]: "translate ns False ([], k) = ([], k)"
  by (simp add: translate_def)

lemma attr_values_append [simp]: "attr_values n (xs @ ys) = attr_values n xs @ attr_values n ys"
  by (simp add: attr_values_def)

lemma attr_values_Nil [simp]: "attr_values n [] = []"
  by (simp add: attr_values_def)

lemma plain_attrs_append [simp]: "plain_attrs (xs @ ys) = plain_attrs xs @ plain_attrs ys"
  by (simp add: plain_attrs_def)

lemma attr_values_always [simp]:
  "attr_values n (plain_attrs (attr_always k v)) = (if k = n then [v] else [])"
  by (simp add: attr_values_def plain_attrs_def attr_always_def)

lemma attr_values_omitempty [simp]:
  "attr_values n (plain_attrs (attr_omitempty k v)) = (if k = n then opt_str v else [])"
  by (simp add: attr_values_def plain_attrs_def attr_omitempty_def opt_str_def)

lemma attr_values_bool_omitempty [simp]:
  "attr_values n (plain_attrs (attr_bool_omitempty k b)) = (if k = n then opt_true b else [])"
  by (simp add: attr_values_def plain_attrs_def attr_bool_omitempty_def opt_true_def)

lemma nsname_gd_tag:
  assumes "take 3 t = ''gd:''" "CHR '':'' \<notin> set (drop 3 t)" "drop 3 t \<noteq> []"
  shows "nsname t = Some (''gd'', drop 3 t)"
proof -
  have "nsname (''gd:'' @ drop 3 t) = Some (''gd'', drop 3 t)"
    using assms(2,3) by (rule nsname_gd)
  moreover have "''gd:'' @ drop 3 t = t"
    using assms(1) append_take_drop_id [of 3 t] by metis
  ultimately show ?thesis by metis
qed

lemma wire_gd_leaf:
  assumes "gd_leaf c"
  shows "wire ns c =
     Some (Elem (translate ns True (''gd'', drop 3 (markup_tag c))) [] [] (markup_chardata c))"
proof -
  obtain t as ks v where c: "c = Markup t as ks v" by (cases c)
  from assms have n: "nsname t = Some (''gd'', drop 3 t)" and as: "as = []" and ks: "ks = []"
    unfolding gd_leaf_def c by (simp_all add: nsname_gd_tag)
  show ?thesis unfolding c as ks by (simp add: n)
qed

lemma those_wire_leaves:
  "list_all gd_leaf cs \<Longrightarrow> those (map (wire ns) cs) = Some (gd_children ns cs)"
  by (induction cs) (simp_all add: gd_children_def wire_gd_leaf)

lemma gd_leaf_omitempty:
  "take 3 t = ''gd:'' \<Longrightarrow> CHR '':'' \<notin> set (drop 3 t) \<Longrightarrow> drop 3 t \<noteq> [] \<Longrightarrow>
   list_all gd_leaf (elem_omitempty t v)"
  by (simp add: elem_omitempty_def gd_leaf_def)

lemma gd_children_append [simp]: "gd_children ns (xs @ ys) = gd_children ns xs @ gd_children ns ys"
  by (simp add: gd_children_def)

lemma elems_local_append [simp]: "elems_local n (xs @ ys) = elems_local n xs @ elems_local n ys"
  by (simp add: elems_local_def)

lemma chardata_gd_children_omitempty [simp]:
  "map elem_chardata (elems_local n (gd_children ns (elem_omitempty t v)))
     = (if drop 3 t = n then opt_str v else [])"
  by (simp add: elems_local_def gd_children_def elem_omitempty_def opt_str_def)

lemma elem_string_alt: "elem_string n cs = copy_string [] (map elem_chardata (elems_local n cs))"
  by (simp add: elem_string_def)

lemma plain_attr_pieces [simp]:
  "list_all plain_attr (attr_always k v) = plain_attr (k, v)"
  "plain_attr (k, []) \<Longrightarrow> list_all plain_attr (attr_omitempty k v)"
  "plain_attr (k, []) \<Longrightarrow> list_all plain_attr (attr_bool_omitempty k b)"
  by (simp_all add: attr_always_def attr_omitempty_def attr_bool_omitempty_def plain_attr_def)

lemma those_attrs_plain_attrs:
  "list_all plain_attr as \<Longrightarrow> those_attrs as = Some (plain_attrs as)"
  by (induction as rule: those_attrs.induct)
     (simp_all add: plain_attrs_def plain_attr_def nsname_plain)

lemma push_ns_plain_attrs:
  "list_all plain_attr as \<Longrightarrow> push_ns ns (plain_attrs as) = ns"
  by (induction as arbitrary: ns) (auto simp: plain_attrs_def plain_attr_def)

lemma translate_plain_attrs:
  "map (\<lambda>(k, v). (translate ns False k, v)) (plain_attrs as) = plain_attrs as"
  by (induction as) (auto simp: plain_attrs_def)

lemma wire_gd_struct:
  assumes "nsname tag = Some tn" "list_all plain_attr as" "list_all gd_leaf cs"
  shows "wire ns (Markup tag as cs t) =
           Some (Elem (translate ns True tn) (plain_attrs as) (gd_children ns cs) t)"
  using assms
  by (simp add: those_attrs_plain_attrs push_ns_plain_attrs translate_plain_attrs
      those_wire_leaves)

lemma nsname_tags:
  "nsname ''gd:name'' = Some (''gd'', ''name'')"
  "nsname ''gd:email'' = Some (''gd'', ''email'')"
  "nsname ''gd:phoneNumber'' = Some (''gd'', ''phoneNumber'')"
  "nsname ''gd:im'' = Some (''gd'', ''im'')"
  "nsname ''gd:structuredPostalAddress'' = Some (''gd'', ''structuredPostalAddress'')"
  "nsname ''gd:extendedProperty'' = Some (''gd'', ''extendedProperty'')"
  by (simp_all add: nsname_def)

lemma wire_GDName:
  "wire ns (GDName_MarshalXML n) =
     Some (Elem (translate ns True (''gd'', ''name'')) (plain_attrs [])
       (gd_children ns (markup_children (GDName_MarshalXML n))) [])"
  unfolding GDName_MarshalXML_def markup.sel
  by (rule wire_gd_struct) (simp_all add: nsname_tags gd_leaf_omitempty)

lemma wire_GDEmail:
  "wire ns (GDEmail_MarshalXML m) =
     Some (Elem (translate ns True (''gd'', ''email''))
       (plain_attrs (markup_attrs (GDEmail_MarshalXML m))) (gd_children ns []) [])"
  unfolding GDEmail_MarshalXML_def markup.sel
  by (rule wire_gd_struct) (simp_all add: nsname_tags plain_attr_def)

lemma wire_GDPhoneNumber:
  "wire ns (GDPhoneNumber_MarshalXML p) =
     Some (Elem (translate ns True (''gd'', ''phoneNumber''))
       (plain_attrs (markup_attrs (GDPhoneNumber_MarshalXML p))) (gd_children ns [])
       (TrimSpace (GDPhoneNumber.DialNumber p)))"
  unfolding GDPhoneNumber_MarshalXML_def markup.sel
  by (rule wire_gd_struct) (simp_all add: nsname_tags plain_attr_def)

lemma wire_GDIM:
  "wire ns (GDIM_MarshalXML im) =
     Some (Elem (translate ns True (''gd'', ''im''))
       (plain_attrs (markup_attrs (GDIM_MarshalXML im))) (gd_children ns []) [])"
  unfolding GDIM_MarshalXML_def markup.sel
  by (rule wire_gd_struct) (simp_all add: nsname_tags plain_attr_def)

lemma wire_GDExtendedProperty:
  "wire ns (GDExtendedProperty_MarshalXML x) =
     Some (Elem (translate ns True (''gd'', ''extendedProperty''))
       (plain_attrs (markup_attrs (GDExtendedProperty_MarshalXML x))) (gd_children ns []) [])"
  unfolding GDExtendedProperty_MarshalXML_def markup.sel
  by (rule wire_gd_struct) (simp_all add: nsname_tags plain_attr_def)

lemma wire_GDStructuredPostalAddress:
  "wire ns (GDStructuredPostalAddress_MarshalXML a) =
     Some (Elem (translate ns True (''gd'', ''structuredPostalAddress''))
       (plain_attrs (markup_attrs (GDStructuredPostalAddress_MarshalXML a)))
       (gd_children ns (markup_children (GDStructuredPostalAddress_MarshalXML a))) [])"
  unfolding GDStructuredPostalAddress_MarshalXML_def markup.sel
  by (rule wire_gd_struct) (simp_all add: nsname_tags plain_attr_def gd_leaf_omitempty)

lemma bindE_Inr [simp]: "bindE (Inr v) f = f v"
  by (simp add: bindE_def)

lemma bindE_Inl [simp]: "bindE (Inl e) f = Inl e"
  by (simp add: bindE_def)

lemma decode_encode_GDName:
  "wire ns (GDName_MarshalXML n) = Some e \<Longrightarrow>
   GDName_UnmarshalXML n0 e = Inr (n\<lparr>GDName.FullName := TrimSpace (GDName.FullName n)\<rparr>)"
  unfolding wire_GDName
  by (cases n; cases n0)
     (auto simp add: GDName_UnmarshalXML_def GDName_MarshalXML_def elem_string_alt TrimSpace_idem)

lemma decode_encode_GDEmail:
  "wire ns (GDEmail_MarshalXML m) = Some e \<Longrightarrow> GDEmail_Unmarshal e = Inr m"
  unfolding wire_GDEmail
  by (cases m)
     (auto simp add: GDEmail_Unmarshal_def GDEmail_MarshalXML_def attr_string_def attr_bool_def)

lemma decode_encode_GDPhoneNumber:
  "wire ns (GDPhoneNumber_MarshalXML p) = Some e \<Longrightarrow>
   GDPhoneNumber_UnmarshalXML p0 e =
     Inr (p\<lparr>GDPhoneNumber.DialNumber := TrimSpace (GDPhoneNumber.DialNumber p)\<rparr>)"
  unfolding wire_GDPhoneNumber
  by (cases p; cases p0)
     (auto simp add: GDPhoneNumber_UnmarshalXML_def GDPhoneNumber_MarshalXML_def
        attr_string_def attr_bool_def TrimSpace_idem)

lemma decode_encode_GDIM:
  "wire ns (GDIM_MarshalXML im) = Some e \<Longrightarrow> GDIM_Unmarshal e = Inr im"
  unfolding wire_GDIM
  by (cases im)
     (auto simp add: GDIM_Unmarshal_def GDIM_MarshalXML_def attr_string_def attr_bool_def)

lemma decode_encode_GDExtendedProperty:
  "wire ns (GDExtendedProperty_MarshalXML x) = Some e \<Longrightarrow> GDExtendedProperty_Unmarshal e = Inr x"
  unfolding wire_GDExtendedProperty
  by (cases x)
     (auto simp add: GDExtendedProperty_Unmarshal_def GDExtendedProperty_MarshalXML_def
        attr_string_def)

lemma decode_encode_GDStructuredPostalAddress:
  "wire ns (GDStructuredPostalAddress_MarshalXML a) = Some e \<Longrightarrow>
   GDStructuredPostalAddress_UnmarshalXML a0 e =
     Inr (a\<lparr>GDStructuredPostalAddress.Related := GDStructuredPostalAddress.Related a0\<rparr>)"
  unfolding wire_GDStructuredPostalAddress
  by (cases a; cases a0)
     (auto simp add: GDStructuredPostalAddress_UnmarshalXML_def
        GDStructuredPostalAddress_MarshalXML_def attr_string_def attr_bool_def elem_string_alt)

subsection \<open>Round trips\<close>

lemma roundtrip_wire: "wire Map.empty m = Some e \<Longrightarrow> roundtrip dec m = dec e"
  by (simp add: roundtrip_def)

lemma roundtrip_GDName:
  "roundtrip (GDName_UnmarshalXML n0) (GDName_MarshalXML n)
     = Inr (n\<lparr>GDName.FullName := TrimSpace (GDName.FullName n)\<rparr>)"
  using wire_GDName [of Map.empty n] decode_encode_GDName [of Map.empty n _ n0]
  by (simp add: roundtrip_def)

lemma roundtrip_GDEmail: "roundtrip GDEmail_Unmarshal (GDEmail_MarshalXML m) = Inr m"
  using wire_GDEmail [of Map.empty m] decode_encode_GDEmail [of Map.empty m]
  by (simp add: roundtrip_def)

lemma roundtrip_GDPhoneNumber:
  "roundtrip (GDPhoneNumber_UnmarshalXML p0) (GDPhoneNumber_MarshalXML p)
     = Inr (p\<lparr>GDPhoneNumber.DialNumber := TrimSpace (GDPhoneNumber.DialNumber p)\<rparr>)"
  using wire_GDPhoneNumber [of Map.empty p] decode_encode_GDPhoneNumber [of Map.empty p _ p0]
  by (simp add: roundtrip_def)

lemma roundtrip_GDIM: "roundtrip GDIM_Unmarshal (GDIM_MarshalXML im) = Inr im"
  using wire_GDIM [of Map.empty im] decode_encode_GDIM [of Map.empty im]
  by (simp add: roundtrip_def)

lemma roundtrip_GDExtendedProperty:
  "roundtrip GDExtendedProperty_Unmarshal (GDExtendedProperty_MarshalXML x) = Inr x"
  using wire_GDExtendedProperty [of Map.empty x] decode_encode_GDExtendedProperty [of Map.empty x]
  by (simp add: roundtrip_def)

lemma roundtrip_GDStructuredPostalAddress:
  "roundtrip (GDStructuredPostalAddress_UnmarshalXML a0) (GDStructuredPostalAddress_MarshalXML a)
     = Inr (a\<lparr>GDStructuredPostalAddress.Related := GDStructuredPostalAddress.Related a0\<rparr>)"
  using wire_GDStructuredPostalAddress [of Map.empty a]
    decode_encode_GDStructuredPostalAddress [of Map.empty a _ a0]
  by (simp add: roundtrip_def)

lemma wire_root_name:
  assumes "wire ns (Markup tag as cs t) = Some e"
  shows "\<exists>n ras. nsname tag = Some n \<and> those_attrs as = Some ras
           \<and> elem_name e = translate (push_ns ns ras) True n"
  using assms by (auto simp: Let_def split: option.splits)

lemma roundtrip_ContactKind_fails:
  "roundtrip (ContactKind_UnmarshalXML pt c0) (ContactKind_MarshalXML c) = Inl XmlError"
proof (cases "wire Map.empty (ContactKind_MarshalXML c)")
  case None
  then show ?thesis by (simp add: roundtrip_def)
next
  case (Some e)
  have n: "nsname ''entry'' = Some ([], ''entry'')" by (simp add: nsname_def)
  have a: "those_attrs [(''xmlns:atom'', ''http://www.w3.org/2005/Atom''),
         (''xmlns:gd'', ''http://schemas.google.com/g/2005'')]
       = Some [((''xmlns'', ''atom''), ''http://www.w3.org/2005/Atom''),
               ((''xmlns'', ''gd''), ''http://schemas.google.com/g/2005'')]"
    by (simp add: nsname_def)
  obtain cs where m: "ContactKind_MarshalXML c =
      Markup ''entry'' [(''xmlns:atom'', ''http://www.w3.org/2005/Atom''),
         (''xmlns:gd'', ''http://schemas.google.com/g/2005'')] cs []"
    unfolding ContactKind_MarshalXML_def Let_def by blast
  from Some obtain tn ras where "nsname ''entry'' = Some tn"
    and "those_attrs [(''xmlns:atom'', ''http://www.w3.org/2005/Atom''),
         (''xmlns:gd'', ''http://schemas.google.com/g/2005'')] = Some ras"
    and "elem_name e = translate (push_ns Map.empty ras) True tn"
    unfolding m by (blast dest: wire_root_name)
  then have "elem_name e = ([], ''entry'')"
    unfolding n a by (auto simp: translate_def)
  then have "decodeContactKind_DecodeElement pt e = Inl XmlError"
    by (simp add: decodeContactKind_DecodeElement_def atom_ns_def)
  then show ?thesis using Some by (simp add: roundtrip_def ContactKind_UnmarshalXML_def)
qed

lemma address_Related_lost:
  "roundtrip (GDStructuredPostalAddress_UnmarshalXML GDStructuredPostalAddress_zero)
     (GDStructuredPostalAddress_MarshalXML
        (GDStructuredPostalAddress_zero\<lparr>GDStructuredPostalAddress.Related :=
           ''http://schemas.google.com/g/2005#work''\<rparr>))
   = Inr GDStructuredPostalAddress_zero"
  unfolding roundtrip_GDStructuredPostalAddress
  by (simp add: GDStructuredPostalAddress_zero_def)

subsection \<open>Conditional fetch and version check\<close>

lemma example_props_entry_decodes:
  "\<exists>c'. ContactKind_UnmarshalXML example_pt ContactKind_zero example_props_entry = Inr c'"
  by (simp add: ContactKind_UnmarshalXML_def decodeContactKind_DecodeElement_def
      example_props_entry_def decode_time_def elems_local_def elems_ns_def atom_ns_def gd_ns_def
      decode_Category_Term_def attr_values_def contactTerm_def GDExtendedProperty_Unmarshal_def
      Link_Unmarshal_def attr_string_def elem_string_def elem_string_ns_def)

lemma example_event_entry_decodes:
  "\<exists>obj. decodeContactKind_DecodeElement example_pt example_event_entry = Inr obj"
  by (simp add: decodeContactKind_DecodeElement_def
      example_event_entry_def decode_time_def elems_local_def elems_ns_def atom_ns_def gd_ns_def)

lemma getContact_trace_cases:
  assumes "getContact L base sv ident proj tag errPrefix s = (r, s', tr)"
  shows "tr = [] \<or> tr = [if tag \<noteq> [] \<and> tag \<noteq> ''*''
            then Header_Set ''If-None-Match'' tag
                   \<lparr>Method = ''GET'', URL = endpoint sv @ ''/'' @ getPojection sv proj @ ''/'' @ ident,
                    Header = [], ReqBody = None\<rparr>
            else \<lparr>Method = ''GET'', URL = endpoint sv @ ''/'' @ getPojection sv proj @ ''/'' @ ident,
                    Header = [], ReqBody = None\<rparr>]"
  using assms unfolding getContact_def NewRequestWithContext_def Let_def
  by (auto split: if_splits sum.splits prod.splits option.splits)

lemma getContact_trace_GET:
  assumes "getContact L base sv ident proj tag errPrefix s = (r, s', tr)"
  shows "\<forall>req \<in> set tr. Method req = ''GET''"
  using getContact_trace_cases [OF assms] by (auto simp: Header_Set_def)

lemma getContact_trace_header:
  assumes "getContact L base sv ident proj tag errPrefix s = (r, s', tr)"
  shows "\<forall>req \<in> set tr. Header_Get ''If-None-Match'' req
           = (if tag \<noteq> [] \<and> tag \<noteq> ''*'' then Some tag else None)"
  using getContact_trace_cases [OF assms] by (auto simp: Header_Set_def Header_Get_def)

lemma getContact_issued:
  assumes "getContact L base sv ident proj tag errPrefix s = (r, s', tr)"
    and "url_ok L (endpoint sv @ ''/'' @ getPojection sv proj @ ''/'' @ ident)"
  shows "length tr = 1"
  using assms unfolding getContact_def NewRequestWithContext_def Let_def
  by (auto split: if_splits sum.splits prod.splits option.splits)

lemma getContact_not_modified:
  assumes "getContact L base sv ident proj tag errPrefix s = (r, s', tr)"
    and "tr = [req]" "Do base req s = (Inr res, s1)" "StatusCode res = 304"
  shows "r = Inr None \<and> s' = s1"
  using assms unfolding getContact_def NewRequestWithContext_def Let_def
  by (auto split: if_splits sum.splits prod.splits option.splits)

lemma example_GetContact:
  "GetContact example_lib not_modified_transport example_service ''c1'' [] ''v1'' ()
     = (Inr None, (),
        [\<lparr>Method = ''GET'', URL = ''https://www.google.com/m8/feeds/contacts/example.com/full/c1'',
          Header = [(''If-None-Match'', ''v1'')], ReqBody = None\<rparr>])"
  by (simp add: GetContact_def getContact_def NewRequestWithContext_def example_lib_def
      example_service_def NewService_def setDefaultProjection_def getPojection_def HasPrefix_def
      Header_Set_def Do_def RoundTrip_def not_modified_transport_def)

lemma UpdateContact_mismatch:
  assumes "getContact L base sv ident ''full'' []
             ''UpdateContact error: could not get a contact'' s = (Inr (Some op), s1, tr)"
    and "etag op \<noteq> tag" "tag \<noteq> ''*''"
  shows "UpdateContact L base sv ident tag p s
           = (Inl (Errorf ''UpdateContact error: etag not match''), s1, tr)"
  using assms by (simp add: UpdateContact_def)

lemma DeleteContact_mismatch:
  assumes "getContact L base sv ident ''thin'' []
             ''could not get a contact from DeleteContact'' s = (Inr (Some op), s1, tr)"
    and "etag op \<noteq> tag" "tag \<noteq> ''*''"
  shows "DeleteContact L base sv ident tag s
           = (Some (Errorf ''UpdateContact error: etag not match''), s1, tr)"
  using assms by (simp add: DeleteContact_def)

lemma example_contact_entry_decodes:
  "\<exists>op. ContactKind_UnmarshalXML example_pt ContactKind_zero example_contact_entry = Inr op
        \<and> etag op = ''v2''
        \<and> editLink op = ''https://www.google.com/m8/feeds/contacts/example.com/full/c1''"
  by (simp add: ContactKind_UnmarshalXML_def decodeContactKind_DecodeElement_def
      example_contact_entry_def decode_time_def elems_local_def elems_ns_def atom_ns_def gd_ns_def
      decode_Category_Term_def attr_values_def contactTerm_def GDEmail_Unmarshal_def
      Link_Unmarshal_def attr_string_def attr_bool_def elem_string_def elem_string_ns_def set_links_def
      set_ExtendedProperty_def)

lemma example_getContact:
  "\<exists>op. getContact example_lib contact_transport example_service ''c1'' proj [] prefix ()
          = (Inr (Some op), (),
             [\<lparr>Method = ''GET'',
               URL = ''https://www.google.com/m8/feeds/contacts/example.com/''
                     @ (if proj \<noteq> [] then proj else ''full'') @ ''/c1'',
               Header = [], ReqBody = None\<rparr>])
        \<and> etag op = ''v2''"
proof -
  obtain op where d: "ContactKind_UnmarshalXML example_pt ContactKind_zero example_contact_entry = Inr op"
    and e: "etag op = ''v2''"
    using example_contact_entry_decodes by blast
  have "getContact example_lib contact_transport example_service ''c1'' proj [] prefix ()
          = (Inr (Some op), (),
             [\<lparr>Method = ''GET'',
               URL = ''https://www.google.com/m8/feeds/contacts/example.com/''
                     @ (if proj \<noteq> [] then proj else ''full'') @ ''/c1'',
               Header = [], ReqBody = None\<rparr>])"
    by (simp add: getContact_def NewRequestWithContext_def example_lib_def
      example_service_def NewService_def setDefaultProjection_def getPojection_def HasPrefix_def
      Header_Set_def Do_def RoundTrip_def contact_transport_def d)
  with e show ?thesis by blast
qed

subsection \<open>Pagination\<close>

lemma feed_Decode_empty_feed:
  "feed_Decode pt empty_feed
     = Inr \<lparr>feed.Etag = [], feed.Updated = 0, feed.Links = [], feed.Contacts = []\<rparr>"
  by (simp add: feed_Decode_def empty_feed_def decode_time_def elems_local_def elems_ns_def
      attr_string_def)

lemma Do_empty_feed_transport:
  "Do empty_feed_transport req s
     = (Inr \<lparr>StatusCode = 200, Status = ''200 OK'', Body = Some empty_feed\<rparr>, s)"
  by (simp add: Do_def RoundTrip_def empty_feed_transport_def)

lemma empty_feed_loop:
  "ListContacts_loop L empty_feed_transport fuel (Some req) ret st () tr
     = (None, (), tr @ replicate fuel req)"
proof (induction fuel arbitrary: tr)
  case 0
  show ?case by simp
next
  case (Suc fuel)
  show ?case
    by (simp add: Do_empty_feed_transport feed_Decode_empty_feed Suc.IH)
qed

lemma feed_Decode_one_page:
  "\<exists>c. ContactKind_UnmarshalXML example_pt ContactKind_zero example_contact_entry = Inr c
      \<and> ContactKind.Email c = [GDEmail_zero\<lparr>GDEmail.Address := ''liz@gmail.com''\<rparr>]
      \<and> feed_Decode example_pt one_page_feed
         = Inr \<lparr>feed.Etag = ''f1'', feed.Updated = 1692352457,
                feed.Links = [\<lparr>Link.Related = ''self'', Link.Type = [],
                   Link.Href = ''https://www.google.com/m8/feeds/contacts/example.com/full''\<rparr>],
                feed.Contacts = [c]\<rparr>"
proof -
  have "\<exists>c. ContactKind_UnmarshalXML example_pt ContactKind_zero example_contact_entry = Inr c
      \<and> ContactKind.Email c = [GDEmail_zero\<lparr>GDEmail.Address := ''liz@gmail.com''\<rparr>]"
    by (simp add: ContactKind_UnmarshalXML_def decodeContactKind_DecodeElement_def
      example_contact_entry_def decode_time_def elems_local_def elems_ns_def atom_ns_def gd_ns_def
      decode_Category_Term_def attr_values_def contactTerm_def GDEmail_Unmarshal_def
      Link_Unmarshal_def attr_string_def attr_bool_def elem_string_def elem_string_ns_def set_links_def
      set_ExtendedProperty_def GDEmail_zero_def)
  then obtain c where d: "ContactKind_UnmarshalXML example_pt ContactKind_zero example_contact_entry = Inr c"
    and e: "ContactKind.Email c = [GDEmail_zero\<lparr>GDEmail.Address := ''liz@gmail.com''\<rparr>]"
    by blast
  have en: "elem_name example_contact_entry = (atom_ns, ''entry'')"
    by (simp add: example_contact_entry_def)
  have "feed_Decode example_pt one_page_feed
         = Inr \<lparr>feed.Etag = ''f1'', feed.Updated = 1692352457,
                feed.Links = [\<lparr>Link.Related = ''self'', Link.Type = [],
                   Link.Href = ''https://www.google.com/m8/feeds/contacts/example.com/full''\<rparr>],
                feed.Contacts = [c]\<rparr>"
    by (simp add: feed_Decode_def one_page_feed_def decode_time_def elems_local_def elems_ns_def
        en d example_pt_def Link_Unmarshal_def attr_string_def attr_values_def atom_ns_def)
  with d e show ?thesis by blast
qed

lemma links_loop_Nil: "links_loop L req [] = req"
  by simp

lemma links_loop_no_next:
  "ls \<noteq> [] \<Longrightarrow> \<not> list_ex (\<lambda>l. Link.Related l = ''next'') ls \<Longrightarrow> links_loop L req ls = None"
proof (induction ls arbitrary: req)
  case Nil
  then show ?case by simp
next
  case (Cons l ls)
  then show ?case by (cases ls) simp_all
qed

lemma links_loop_next:
  assumes "list_ex (\<lambda>l. Link.Related l = ''next'') ls"
  shows "links_loop L req ls =
     (case filter (\<lambda>l. Link.Related l = ''next'') ls of
        [] \<Rightarrow> None
      | l # _ \<Rightarrow> (if url_ok L (Link.Href l)
                   then Some \<lparr>Method = ''GET'', URL = Link.Href l, Header = [], ReqBody = None\<rparr>
                   else None))"
  using assms
proof (induction ls arbitrary: req)
  case Nil
  then show ?case by simp
next
  case (Cons a ls)
  show ?case
  proof (cases "Link.Related a = ''next''")
    case True
    then show ?thesis by (simp add: NewRequestWithContext_def)
  next
    case False
    with Cons.prems have "list_ex (\<lambda>l. Link.Related l = ''next'') ls" by simp
    from Cons.IH [OF this, of None] False show ?thesis by simp
  qed
qed

lemma ListContacts_loop_pages:
  assumes "served L base req s pages"
  shows "\<exists>s' tr. ListContacts_loop L base (length pages + k) (Some req) ret st s tr0
           = (Some (Inr (ret @ map Clone (concat (map feed.Contacts pages)),
                         st\<lparr>QueryStatus.Etag := feed.Etag (last pages),
                            QueryStatus.Updated := feed.Updated (last pages)\<rparr>)),
              s', tr0 @ tr)
         \<and> length tr = length pages"
  using assms
proof (induction pages arbitrary: req s ret tr0)
  case Nil
  then show ?case by simp
next
  case (Cons f fs)
  from Cons.prems obtain res s1 e where d: "Do base req s = (Inr res, s1)"
    and b: "Body res = Some e" and f: "feed_Decode (parse_time L) e = Inr f"
    and c: "if fs = [] then feed.Links f \<noteq> [] \<and> \<not> has_next f
            else has_next f \<and> url_ok L (next_href f)
                 \<and> served L base
                      \<lparr>Method = ''GET'', URL = next_href f, Header = [], ReqBody = None\<rparr> s1 fs"
    by (auto split: prod.splits sum.splits option.splits)
  show ?case
  proof (cases "fs = []")
    case True
    with c have "links_loop L (Some req) (feed.Links f) = None"
      by (simp add: links_loop_no_next has_next_def)
    then have "ListContacts_loop L base (length (f # fs) + k) (Some req) ret st s tr0
           = (Some (Inr (ret @ map Clone (concat (map feed.Contacts (f # fs))),
                         st\<lparr>QueryStatus.Etag := feed.Etag (last (f # fs)),
                            QueryStatus.Updated := feed.Updated (last (f # fs))\<rparr>)),
              s1, tr0 @ [req])"
      using True by (simp add: d b f)
    then show ?thesis by (metis length_Cons list.size(3) True)
  next
    case False
    with c have n: "has_next f" and u: "url_ok L (next_href f)"
      and sv: "served L base
                 \<lparr>Method = ''GET'', URL = next_href f, Header = [], ReqBody = None\<rparr> s1 fs"
      by simp_all
    from n have fl: "filter (\<lambda>l. Link.Related l = ''next'') (feed.Links f) \<noteq> []"
      by (simp add: has_next_def list_ex_iff filter_empty_conv)
    have ll: "links_loop L (Some req) (feed.Links f)
          = Some \<lparr>Method = ''GET'', URL = next_href f, Header = [], ReqBody = None\<rparr>"
    proof -
      from fl obtain l ls where e: "filter (\<lambda>l. Link.Related l = ''next'') (feed.Links f) = l # ls"
        by (cases "filter (\<lambda>l. Link.Related l = ''next'') (feed.Links f)") simp_all
      then have h: "next_href f = Link.Href l" by (simp add: next_href_def)
      from n have "list_ex (\<lambda>l. Link.Related l = ''next'') (feed.Links f)"
        by (simp add: has_next_def)
      from links_loop_next [OF this, of L "Some req"] e u h show ?thesis by simp
    qed
    from Cons.IH [OF sv, of "ret @ map Clone (feed.Contacts f)" "tr0 @ [req]"]
    obtain s' tr where r: "ListContacts_loop L base (length fs + k)
             (Some \<lparr>Method = ''GET'', URL = next_href f, Header = [], ReqBody = None\<rparr>)
             (ret @ map Clone (feed.Contacts f)) st s1 (tr0 @ [req])
           = (Some (Inr ((ret @ map Clone (feed.Contacts f))
                           @ map Clone (concat (map feed.Contacts fs)),
                         st\<lparr>QueryStatus.Etag := feed.Etag (last fs),
                            QueryStatus.Updated := feed.Updated (last fs)\<rparr>)),
              s', (tr0 @ [req]) @ tr)" and len: "length tr = length fs"
      by blast
    have "ListContacts_loop L base (length (f # fs) + k) (Some req) ret st s tr0
           = (Some (Inr (ret @ map Clone (concat (map feed.Contacts (f # fs))),
                         st\<lparr>QueryStatus.Etag := feed.Etag (last (f # fs)),
                            QueryStatus.Updated := feed.Updated (last (f # fs))\<rparr>)),
              s', tr0 @ (req # tr))"
      using False r by (simp add: d b f ll)
    moreover have "length (req # tr) = length (f # fs)" using len by simp
    ultimately show ?thesis by blast
  qed
qed

lemma example_bare_entry_decodes:
  "\<exists>obj. decodeContactKind_DecodeElement example_pt example_bare_entry = Inr obj"
  by (simp add: decodeContactKind_DecodeElement_def
      example_bare_entry_def decode_time_def elems_local_def elems_ns_def atom_ns_def gd_ns_def)

lemma example_GetContact_wildcard:
  "GetContact example_lib not_modified_transport example_service ''c1'' [] ''*'' ()
     = (Inr None, (),
        [\<lparr>Method = ''GET'', URL = ''https://www.google.com/m8/feeds/contacts/example.com/full/c1'',
          Header = [], ReqBody = None\<rparr>])"
  by (simp add: GetContact_def getContact_def NewRequestWithContext_def example_lib_def
      example_service_def NewService_def setDefaultProjection_def getPojection_def HasPrefix_def
      Header_Set_def Do_def RoundTrip_def not_modified_transport_def)

lemma ListContacts_pages:
  assumes u: "url_ok L (endpoint sv @ ''/'' @ getPojection sv proj)"
    and p: "served L base
              (if tag \<noteq> []
               then Header_Set ''If-None-Match'' tag
                      \<lparr>Method = ''GET'', URL = endpoint sv @ ''/'' @ getPojection sv proj,
                       Header = [], ReqBody = None\<rparr>
               else \<lparr>Method = ''GET'', URL = endpoint sv @ ''/'' @ getPojection sv proj,
                       Header = [], ReqBody = None\<rparr>) s pages"
    and f: "length pages \<le> fuel"
  shows "\<exists>s' tr. ListContacts L base sv fuel proj tag [] s
           = (Some (Inr (map Clone (concat (map feed.Contacts pages)),
                         \<lparr>QueryStatus.Updated = feed.Updated (last pages),
                          QueryStatus.Etag = feed.Etag (last pages)\<rparr>)),
              s', tr)
         \<and> length tr = length pages"
proof -
  from f obtain k where k: "fuel = length pages + k"
    using le_Suc_ex by blast
  from ListContacts_loop_pages [OF p, of k "[]" "\<lparr>QueryStatus.Updated = 0, QueryStatus.Etag = []\<rparr>" "[]"]
  show ?thesis
    using u unfolding ListContacts_def NewRequestWithContext_def k Let_def
    by (cases "tag = []") auto
qed

subsection \<open>Clone and the text query\<close>

lemma map_of_rev_distinct:
  "distinct (map fst ps) \<Longrightarrow> map_of (rev ps) = map_of ps"
proof (induction ps)
  case Nil
  show ?case by simp
next
  case (Cons p ps)
  obtain k v where p: "p = (k, v)" by (cases p)
  from Cons.prems have d: "distinct (map fst ps)" and n: "k \<notin> fst ` set ps"
    by (simp_all add: p)
  from n have "map_of ps k = None" by (simp add: map_of_eq_None_iff)
  then show ?case
    using Cons.IH [OF d]
    by (auto simp: p fun_eq_iff map_add_def split: option.splits)
qed

lemma Clone_fields:
  "ContactKind.Name (Clone c) = ContactKind.Name c"
  "ContactKind.Email (Clone c)
     = replicate (length (ContactKind.Email c)) GDEmail_zero @ ContactKind.Email c"
  "ContactKind.PhoneNumber (Clone c)
     = replicate (length (ContactKind.PhoneNumber c)) GDPhoneNumber_zero @ ContactKind.PhoneNumber c"
  "ContactKind.StructuredPostalAddress (Clone c)
     = replicate (length (ContactKind.StructuredPostalAddress c)) GDStructuredPostalAddress_zero
       @ ContactKind.StructuredPostalAddress c"
  "ContactKind.IM (Clone c) = ContactKind.IM c"
  "deleted (Clone c) = deleted c" "editLink (Clone c) = editLink c"
  "photoLink (Clone c) = photoLink c" "selfLink (Clone c) = selfLink c"
  "id_field (Clone c) = id_field c" "updated (Clone c) = updated c"
  "content (Clone c) = content c" "etag (Clone c) = etag c"
  by (simp_all add: Clone_def append_all_eq)

lemma Clone_ExtendedProperty:
  "distinct (map fst (ContactKind.ExtendedProperty c)) \<Longrightarrow>
   map_of (ContactKind.ExtendedProperty (Clone c)) = map_of (ContactKind.ExtendedProperty c)"
  by (simp add: Clone_def map_of_fold_update map_of_rev_distinct)

lemma WithTextQuery_loop_plain:
  "\<forall>t \<in> set ts. \<not> HasPrefix t ''-'' \<Longrightarrow>
   WithTextQuery_loop idx ts b
     = b @ replicate (if idx = 0 then length ts - 1 else length ts) (CHR '' '')"
proof (induction ts arbitrary: idx b)
  case Nil
  show ?case by simp
next
  case (Cons t ts)
  then have "WithTextQuery_loop (Suc idx) ts b'
     = b' @ replicate (length ts) (CHR '' '')" for b'
    by simp
  then show ?case using Cons.prems
    by (simp add: Let_def replicate_app_Cons_same)
qed

lemma WithTextQuery_plain:
  "\<forall>t \<in> set ts. \<not> HasPrefix t ''-'' \<Longrightarrow>
   WithTextQuery ts v = Values_Set ''q'' (replicate (length ts - 1) (CHR '' '')) v"
  by (simp add: WithTextQuery_def WithTextQuery_loop_plain)

subsection \<open>The tests of the package\<close>

text \<open>
  What the tests of the package check of the codec holds of the model: the values the
  tests decode from their documents, given here as the parser delivers them, and the
  markup they expect from the encoder.
\<close>

lemma TestGDName:
  "GDName_UnmarshalXML GDName_zero
     (Elem (''gd'', ''name'') []
        [Elem (''gd'', ''fullName'') [] [] ''FIRST_NAME LAST_NAME'',
         Elem (''gd'', ''givenName'') [] [] ''FIRST_NAME'',
         Elem (''gd'', ''familyName'') [] [] ''LAST_NAME'']
        [CHR 0x09, CHR 0x0A, CHR 0x0A, CHR 0x0A])
   = Inr (GDName_zero\<lparr>GDName.FullName := ''FIRST_NAME LAST_NAME'',
            GDName.GivenName := ''FIRST_NAME'', GDName.FamilyName := ''LAST_NAME''\<rparr>)"
  "GDName_MarshalXML (GDName_zero\<lparr>GDName.FullName := ''FIRST_NAME LAST_NAME''\<rparr>)
   = Markup ''gd:name'' [] [Markup ''gd:fullName'' [] [] ''FIRST_NAME LAST_NAME''] []"
  by (simp_all add: GDName_UnmarshalXML_def GDName_MarshalXML_def GDName_zero_def
      elem_string_def elems_local_def copy_string_def TrimSpace_def isSpace_def
      elem_omitempty_def)

lemma TestGDEmail:
  "GDEmail_Unmarshal
     (Elem (''gd'', ''email'')
        [(([], ''address''), ''fubar@gmail.com''),
         (([], ''rel''), ''http://schemas.google.com/g/2005#home''),
         (([], ''label''), ''Personal''), (([], ''primary''), ''true'')] [] [])
   = Inr \<lparr>GDEmail.Address = ''fubar@gmail.com'',
          GDEmail.Related = ''http://schemas.google.com/g/2005#home'',
          GDEmail.Label = ''Personal'', GDEmail.Primary = True, GDEmail.DisplayName = []\<rparr>"
  "GDEmail_MarshalXML
     \<lparr>GDEmail.Address = ''fubar@gmail.com'',
      GDEmail.Related = ''http://schemas.google.com/g/2005#home'',
      GDEmail.Label = ''Personal'', GDEmail.Primary = True, GDEmail.DisplayName = []\<rparr>
   = Markup ''gd:email''
       [(''address'', ''fubar@gmail.com''), (''rel'', ''http://schemas.google.com/g/2005#home''),
        (''label'', ''Personal''), (''primary'', ''true'')] [] []"
  by (simp_all add: GDEmail_Unmarshal_def GDEmail_MarshalXML_def attr_string_def attr_bool_def
      attr_values_def copy_string_def copyValue_bool_def ParseBool_def TrimSpace_def isSpace_def
      attr_always_def attr_omitempty_def attr_bool_omitempty_def bindE_def)

lemma TestGDPhoneNumber:
  "GDPhoneNumber_UnmarshalXML GDPhoneNumber_zero
     (Elem (''gd'', ''phoneNumber'')
        [(([], ''rel''), ''http://schemas.google.com/g/2005#work''),
         (([], ''uri''), ''tel:+1-425-555-8080;ext=52585'')] []
        ([CHR 0x0A] @ ''  (425) 555-8080 ext. 52585'' @ [CHR 0x0A]))
   = Inr \<lparr>GDPhoneNumber.Related = ''http://schemas.google.com/g/2005#work'',
          GDPhoneNumber.Label = [], GDPhoneNumber.URI = ''tel:+1-425-555-8080;ext=52585'',
          GDPhoneNumber.Primary = False, GDPhoneNumber.DialNumber = ''(425) 555-8080 ext. 52585''\<rparr>"
  by (simp add: GDPhoneNumber_UnmarshalXML_def GDPhoneNumber_zero_def attr_string_def
      attr_bool_def attr_values_def copy_string_def TrimSpace_def isSpace_def bindE_def)

lemma TestGDIM:
  "GDIM_Unmarshal
     (Elem (''gd'', ''im'')
        [(([], ''protocol''), ''http://schemas.google.com/g/2005#MSN''),
         (([], ''address''), ''foo@bar.msn.com''),
         (([], ''rel''), ''http://schemas.google.com/g/2005#home''),
         (([], ''primary''), ''true'')] [] [])
   = Inr \<lparr>GDIM.Address = ''foo@bar.msn.com'', GDIM.Label = [],
          GDIM.Related = ''http://schemas.google.com/g/2005#home'',
          GDIM.Protocol = ''http://schemas.google.com/g/2005#MSN'', GDIM.Primary = True\<rparr>"
  by (simp add: GDIM_Unmarshal_def attr_string_def attr_bool_def
      attr_values_def copy_string_def copyValue_bool_def ParseBool_def TrimSpace_def isSpace_def
      bindE_def)

lemma TestGDPostalAddress:
  "GDStructuredPostalAddress_UnmarshalXML GDStructuredPostalAddress_zero
     (Elem (''gd'', ''structuredPostalAddress'')
        [(([], ''mailClass''), ''http://schemas.google.com/g/2005#letters''),
         (([], ''label''), ''John at Google'')]
        [Elem (''gd'', ''street'') [] [] ''1600 Amphitheatre Parkway'',
         Elem (''gd'', ''city'') [] [] ''Mountain View'',
         Elem (''gd'', ''region'') [] [] ''CA'',
         Elem (''gd'', ''postcode'') [] [] ''94043'']
        [])
   = Inr (GDStructuredPostalAddress_zero
           \<lparr>GDStructuredPostalAddress.MailClass := ''http://schemas.google.com/g/2005#letters'',
            GDStructuredPostalAddress.Label := ''John at Google'',
            GDStructuredPostalAddress.City := ''Mountain View'',
            GDStructuredPostalAddress.Street := ''1600 Amphitheatre Parkway'',
            GDStructuredPostalAddress.Region := ''CA'',
            GDStructuredPostalAddress.PostCode := ''94043''\<rparr>)"
  by (simp add: GDStructuredPostalAddress_UnmarshalXML_def GDStructuredPostalAddress_zero_def
      attr_string_def attr_bool_def attr_values_def copy_string_def elem_string_def
      elems_local_def bindE_def)

lemma TestContactKind:
  "\<exists>c. ContactKind_UnmarshalXML
          (\<lambda>s. if s = ''2023-08-18T09:54:17.202Z'' then Some 1692352457202 else None)
          ContactKind_zero test_entry = Inr c
      \<and> id_field c = ''http://www.google.com/m8/feeds/contacts/legispect.com/base/20017e218fa39973''
      \<and> updated c \<noteq> 0
      \<and> content c = ''My good friend, Liz.  A little quick to judge sometimes, but nice girl.''
      \<and> length (ContactKind.Email c) = 2 \<and> length (ContactKind.PhoneNumber c) = 3
      \<and> length (ContactKind.IM c) = 1 \<and> length (ContactKind.StructuredPostalAddress c) = 2
      \<and> GDEmail.Address (ContactKind.Email c ! 0) = ''liz@gmail.com''"
  by (simp add: ContactKind_UnmarshalXML_def decodeContactKind_DecodeElement_def
      test_entry_def decode_time_def elems_local_def elems_ns_def atom_ns_def gd_ns_def
      decode_Category_Term_def attr_values_def contactTerm_def GDEmail_Unmarshal_def
      GDIM_Unmarshal_def GDPhoneNumber_UnmarshalXML_def GDStructuredPostalAddress_UnmarshalXML_def
      Link_Unmarshal_def attr_string_def attr_bool_def elem_string_def elem_string_ns_def
      set_links_def set_ExtendedProperty_def copy_string_def copyValue_bool_def ParseBool_def
      TrimSpace_def isSpace_def bindE_def Let_def)

section \<open>Claims\<close>

text \<open>
  C1. The claim says that decoding the encoding of a sub-structure, or of a whole
  contact, gives back every field a caller can set. For the six sub-structures the
  code does this up to two deliberate normalisations and one field: the full name of a
  name and the dial string of a phone number come back trimmed of leading and trailing
  white space, both methods of each structure calling \<open>strings.TrimSpace\<close>; and for a
  postal address every field but the relation comes back, where the statement leaves
  open what the relation is after decoding. The receivers \<open>n0\<close>, \<open>p0\<close> and \<open>a0\<close>
  are what the decoder is handed to fill. The whole contact is not part of this
  statement: its encoding does not decode (lemma \<open>roundtrip_ContactKind_fails\<close>).
\<close>

theorem substructure_roundtrip:
  "roundtrip (GDName_UnmarshalXML n0) (GDName_MarshalXML n)
     = Inr (n\<lparr>GDName.FullName := TrimSpace (GDName.FullName n)\<rparr>)
   \<and> roundtrip GDEmail_Unmarshal (GDEmail_MarshalXML m) = Inr m
   \<and> roundtrip (GDPhoneNumber_UnmarshalXML p0) (GDPhoneNumber_MarshalXML p)
       = Inr (p\<lparr>GDPhoneNumber.DialNumber := TrimSpace (GDPhoneNumber.DialNumber p)\<rparr>)
   \<and> roundtrip GDIM_Unmarshal (GDIM_MarshalXML im) = Inr im
   \<and> roundtrip GDExtendedProperty_Unmarshal (GDExtendedProperty_MarshalXML x) = Inr x
   \<and> (\<exists>r. roundtrip (GDStructuredPostalAddress_UnmarshalXML a0)
              (GDStructuredPostalAddress_MarshalXML a)
            = Inr (a\<lparr>GDStructuredPostalAddress.Related := r\<rparr>))"
  using roundtrip_GDName roundtrip_GDEmail roundtrip_GDPhoneNumber roundtrip_GDIM
    roundtrip_GDExtendedProperty roundtrip_GDStructuredPostalAddress
  by blast

text \<open>
  C1, counterexample. A name whose full name starts with a space is not reproduced: the
  encoder trims it, so the decoder never sees the space.
\<close>

theorem untrimmed_name_not_reproduced:
  "roundtrip (GDName_UnmarshalXML GDName_zero)
     (GDName_MarshalXML (GDName_zero\<lparr>GDName.FullName := '' Elizabeth Bennet''\<rparr>))
   \<noteq> Inr (GDName_zero\<lparr>GDName.FullName := '' Elizabeth Bennet''\<rparr>)"
  unfolding roundtrip_GDName
  by (simp add: GDName_zero_def TrimSpace_def isSpace_def)

text \<open>
  C2. The claim says that \<open>ListContacts\<close> returns the contacts of all pages, in order.
  On a feed of one page that holds one contact with one email address and a \<open>self\<close>
  link, the page decodes to a contact \<open>c\<close> with that one address, and \<open>ListContacts\<close>
  returns \<open>Clone c\<close>, whose email list holds a zero-valued entry before the address.
  The status returned is the page's, and one request was issued.
\<close>

theorem ListContacts_returns_padded_clones:
  "\<exists>c f. feed_Decode example_pt one_page_feed = Inr f
      \<and> feed.Contacts f = [c]
      \<and> ContactKind.Email c = [GDEmail_zero\<lparr>GDEmail.Address := ''liz@gmail.com''\<rparr>]
      \<and> ListContacts example_lib one_page_transport example_service 1 [] [] [] ()
          = (Some (Inr ([Clone c],
                \<lparr>QueryStatus.Updated = 1692352457, QueryStatus.Etag = ''f1''\<rparr>)),
             (), [list_request])
      \<and> ContactKind.Email (Clone c)
          = [GDEmail_zero, GDEmail_zero\<lparr>GDEmail.Address := ''liz@gmail.com''\<rparr>]"
proof -
  obtain c where e: "ContactKind.Email c = [GDEmail_zero\<lparr>GDEmail.Address := ''liz@gmail.com''\<rparr>]"
    and f: "feed_Decode example_pt one_page_feed
         = Inr \<lparr>feed.Etag = ''f1'', feed.Updated = 1692352457,
                feed.Links = [\<lparr>Link.Related = ''self'', Link.Type = [],
                   Link.Href = ''https://www.google.com/m8/feeds/contacts/example.com/full''\<rparr>],
                feed.Contacts = [c]\<rparr>"
    using feed_Decode_one_page by blast
  have l: "ListContacts example_lib one_page_transport example_service 1 [] [] [] ()
          = (Some (Inr ([Clone c],
                \<lparr>QueryStatus.Updated = 1692352457, QueryStatus.Etag = ''f1''\<rparr>)),
             (), [list_request])"
    by (simp add: ListContacts_def NewRequestWithContext_def example_lib_def example_service_def
      NewService_def setDefaultProjection_def getPojection_def HasPrefix_def
      list_request_def Do_def RoundTrip_def one_page_transport_def f)
  have "ContactKind.Email (Clone c)
          = [GDEmail_zero, GDEmail_zero\<lparr>GDEmail.Address := ''liz@gmail.com''\<rparr>]"
    by (simp add: Clone_def append_all_eq e)
  with e f l show ?thesis by simp
qed

text \<open>
  C3. When the version tag given to \<open>UpdateContact\<close> or \<open>DeleteContact\<close> differs from
  the tag of the contact that the preliminary \<open>getContact\<close> has just fetched, and is not
  the wildcard \<open>*\<close>, the operation returns the error \<open>etag not match\<close>, the world is
  left in the state after the fetch, and the requests issued are those of the fetch, none
  of them a \<open>PUT\<close> or a \<open>DELETE\<close>.
\<close>

theorem version_mismatch_before_mutation:
  assumes "etag op \<noteq> tag" and "tag \<noteq> ''*''"
  shows "(getContact L base sv ident ''full'' []
            ''UpdateContact error: could not get a contact'' s = (Inr (Some op), s1, tr)
          \<longrightarrow> UpdateContact L base sv ident tag p s
                = (Inl (Errorf ''UpdateContact error: etag not match''), s1, tr)
              \<and> (\<forall>req \<in> set tr. Method req \<noteq> ''PUT'' \<and> Method req \<noteq> ''DELETE''))
       \<and> (getContact L base sv ident ''thin'' []
            ''could not get a contact from DeleteContact'' s = (Inr (Some op), s1, tr)
          \<longrightarrow> DeleteContact L base sv ident tag s
                = (Some (Errorf ''UpdateContact error: etag not match''), s1, tr)
              \<and> (\<forall>req \<in> set tr. Method req \<noteq> ''PUT'' \<and> Method req \<noteq> ''DELETE''))"
proof (intro conjI impI)
  assume g: "getContact L base sv ident ''full'' []
            ''UpdateContact error: could not get a contact'' s = (Inr (Some op), s1, tr)"
  show "UpdateContact L base sv ident tag p s
          = (Inl (Errorf ''UpdateContact error: etag not match''), s1, tr)"
    using g assms by (rule UpdateContact_mismatch)
  show "\<forall>req \<in> set tr. Method req \<noteq> ''PUT'' \<and> Method req \<noteq> ''DELETE''"
    using getContact_trace_GET [OF g] by auto
next
  assume g: "getContact L base sv ident ''thin'' []
            ''could not get a contact from DeleteContact'' s = (Inr (Some op), s1, tr)"
  show "DeleteContact L base sv ident tag s
          = (Some (Errorf ''UpdateContact error: etag not match''), s1, tr)"
    using g assms by (rule DeleteContact_mismatch)
  show "\<forall>req \<in> set tr. Method req \<noteq> ''PUT'' \<and> Method req \<noteq> ''DELETE''"
    using getContact_trace_GET [OF g] by auto
qed

theorem version_mismatch_before_mutation_witness:
  "UpdateContact example_lib contact_transport example_service ''c1'' ''v1'' ContactKind_zero ()
     = (Inl (Errorf ''UpdateContact error: etag not match''), (),
        [\<lparr>Method = ''GET'',
          URL = ''https://www.google.com/m8/feeds/contacts/example.com/full/c1'',
          Header = [], ReqBody = None\<rparr>])
   \<and> DeleteContact example_lib contact_transport example_service ''c1'' ''v1'' ()
     = (Some (Errorf ''UpdateContact error: etag not match''), (),
        [\<lparr>Method = ''GET'',
          URL = ''https://www.google.com/m8/feeds/contacts/example.com/thin/c1'',
          Header = [], ReqBody = None\<rparr>])"
proof -
  obtain op1 where g1: "getContact example_lib contact_transport example_service ''c1'' ''full'' []
       ''UpdateContact error: could not get a contact'' ()
          = (Inr (Some op1), (),
             [\<lparr>Method = ''GET'',
               URL = ''https://www.google.com/m8/feeds/contacts/example.com/full/c1'',
               Header = [], ReqBody = None\<rparr>])" and e1: "etag op1 = ''v2''"
    using example_getContact [of "''full''" "''UpdateContact error: could not get a contact''"]
    by auto
  obtain op2 where g2: "getContact example_lib contact_transport example_service ''c1'' ''thin'' []
       ''could not get a contact from DeleteContact'' ()
          = (Inr (Some op2), (),
             [\<lparr>Method = ''GET'',
               URL = ''https://www.google.com/m8/feeds/contacts/example.com/thin/c1'',
               Header = [], ReqBody = None\<rparr>])" and e2: "etag op2 = ''v2''"
    using example_getContact [of "''thin''" "''could not get a contact from DeleteContact''"]
    by auto
  have n1: "etag op1 \<noteq> ''v1''" and n2: "etag op2 \<noteq> ''v1''" and w: "''v1'' \<noteq> ''*''"
    using e1 e2 by simp_all
  show ?thesis
    using version_mismatch_before_mutation [OF n1 w, of example_lib contact_transport
        example_service "''c1''" "()" "()" _ ContactKind_zero] g1
      version_mismatch_before_mutation [OF n2 w, of example_lib contact_transport
        example_service "''c1''" "()" "()" _ ContactKind_zero] g2
    by blast
qed

text \<open>
  C4. Every request that \<open>GetContact\<close> issues is a \<open>GET\<close> whose \<open>If-None-Match\<close>
  header is the version tag when the tag is neither empty nor the wildcard, and is absent
  otherwise; the request is issued whenever its URL is accepted; and when the answer to
  it has status 304 the result is the pair \<open>(nil, nil)\<close>, here \<open>Inr None\<close>.
\<close>

theorem GetContact_conditional:
  assumes "GetContact L base sv ident proj tag s = (r, s', tr)"
  shows "(\<forall>req \<in> set tr. Method req = ''GET''
            \<and> Header_Get ''If-None-Match'' req
                = (if tag \<noteq> [] \<and> tag \<noteq> ''*'' then Some tag else None))
       \<and> (url_ok L (endpoint sv @ ''/'' @ getPojection sv proj @ ''/'' @ ident)
            \<longrightarrow> length tr = 1)
       \<and> (\<forall>req res s1. tr = [req] \<and> Do base req s = (Inr res, s1) \<and> StatusCode res = 304
            \<longrightarrow> r = Inr None)"
proof -
  have g: "getContact L base sv ident proj tag ''could not get a contact from GetContact'' s
           = (r, s', tr)"
    using assms unfolding GetContact_def .
  show ?thesis
    using getContact_trace_GET [OF g] getContact_trace_header [OF g] getContact_issued [OF g]
      getContact_not_modified [OF g]
    by blast
qed

theorem GetContact_conditional_witness:
  "GetContact example_lib not_modified_transport example_service ''c1'' [] ''v1'' ()
     = (Inr None, (),
        [\<lparr>Method = ''GET'', URL = ''https://www.google.com/m8/feeds/contacts/example.com/full/c1'',
          Header = [(''If-None-Match'', ''v1'')], ReqBody = None\<rparr>])
   \<and> Header_Get ''If-None-Match''
        \<lparr>Method = ''GET'', URL = ''https://www.google.com/m8/feeds/contacts/example.com/full/c1'',
          Header = [(''If-None-Match'', ''v1'')], ReqBody = None\<rparr> = Some ''v1''
   \<and> GetContact example_lib not_modified_transport example_service ''c1'' [] ''*'' ()
     = (Inr None, (),
        [\<lparr>Method = ''GET'', URL = ''https://www.google.com/m8/feeds/contacts/example.com/full/c1'',
          Header = [], ReqBody = None\<rparr>])
   \<and> Header_Get ''If-None-Match''
        \<lparr>Method = ''GET'', URL = ''https://www.google.com/m8/feeds/contacts/example.com/full/c1'',
          Header = [], ReqBody = None\<rparr> = None"
  using GetContact_conditional [OF example_GetContact]
    GetContact_conditional [OF example_GetContact_wildcard]
    example_GetContact example_GetContact_wildcard
  by simp

text \<open>
  C5. The claim says that \<open>Clone\<close> returns a contact equal to its receiver. For a
  contact with one email address the clone holds two: a zero-valued entry, left by
  \<open>make([]GDEmail, len(c.Email))\<close>, followed by the copied one. The same happens to
  the phone numbers and the postal addresses; the \<open>IM\<close> slice, made with length zero,
  is copied as it is.
\<close>

theorem Clone_prepends_zero_values:
  "ContactKind.Email
     (Clone (ContactKind_zero\<lparr>ContactKind.Email :=
        [GDEmail_zero\<lparr>GDEmail.Address := ''liz@gmail.com''\<rparr>]\<rparr>))
     = [GDEmail_zero, GDEmail_zero\<lparr>GDEmail.Address := ''liz@gmail.com''\<rparr>]
   \<and> Clone (ContactKind_zero\<lparr>ContactKind.Email :=
        [GDEmail_zero\<lparr>GDEmail.Address := ''liz@gmail.com''\<rparr>]\<rparr>)
     \<noteq> ContactKind_zero\<lparr>ContactKind.Email :=
        [GDEmail_zero\<lparr>GDEmail.Address := ''liz@gmail.com''\<rparr>]\<rparr>"
  by (simp add: Clone_def append_all_def ContactKind_zero_def GDEmail_zero_def)

text \<open>
  C6. The claim says that traversal stops after a page without a \<open>next\<close> link, a page
  without any link included. Against a client that answers every request with a feed
  that has no link, \<open>ListContacts\<close> never returns: whatever the fuel, the loop is still
  running when it is used up, and it has sent the first request again in every
  iteration. (A page that has links, none of them \<open>next\<close>, does end the traversal, and
  a \<open>next\<close> link is followed by a \<open>GET\<close> of its \<open>Href\<close> with an empty header:
  lemmas \<open>links_loop_no_next\<close> and \<open>links_loop_next\<close>.)
\<close>

theorem ListContacts_never_stops_without_links:
  "ListContacts example_lib empty_feed_transport example_service fuel [] [] [] ()
     = (None, (), replicate fuel list_request)"
  by (simp add: ListContacts_def NewRequestWithContext_def example_lib_def example_service_def
      NewService_def setDefaultProjection_def getPojection_def HasPrefix_def empty_feed_loop
      list_request_def)

text \<open>
  C7. The claim says that every leaf field that holds the zero value of its type is left
  out by the encoder. The code leaves out exactly the fields tagged \<open>omitempty\<close>: each
  of the statements below says that a child element or an attribute is written if and
  only if its field is not zero (for the full name and the dial string: not empty after
  trimming). The fields without the tag are always written: the \<open>address\<close> attribute
  of an email address and of an instant-message handle, the \<open>name\<close> attribute of an
  extended property, and the \<open>gd:name\<close> and \<open>content\<close> elements of a contact.
\<close>

theorem omitempty_fields:
  "((''gd:givenName'' \<in> set (child_tags (GDName_MarshalXML n))) = (GDName.GivenName n \<noteq> [])
    \<and> (''gd:additionalName'' \<in> set (child_tags (GDName_MarshalXML n))) = (GDName.AdditionalName n \<noteq> [])
    \<and> (''gd:familyName'' \<in> set (child_tags (GDName_MarshalXML n))) = (GDName.FamilyName n \<noteq> [])
    \<and> (''gd:namePrefix'' \<in> set (child_tags (GDName_MarshalXML n))) = (GDName.Prefix n \<noteq> [])
    \<and> (''gd:nameSuffix'' \<in> set (child_tags (GDName_MarshalXML n))) = (GDName.Suffix n \<noteq> [])
    \<and> (''gd:fullName'' \<in> set (child_tags (GDName_MarshalXML n))) = (TrimSpace (GDName.FullName n) \<noteq> []))
   \<and> (''address'' \<in> set (attr_names (GDEmail_MarshalXML m))
    \<and> (''rel'' \<in> set (attr_names (GDEmail_MarshalXML m))) = (GDEmail.Related m \<noteq> [])
    \<and> (''label'' \<in> set (attr_names (GDEmail_MarshalXML m))) = (GDEmail.Label m \<noteq> [])
    \<and> (''primary'' \<in> set (attr_names (GDEmail_MarshalXML m))) = GDEmail.Primary m
    \<and> (''displayName'' \<in> set (attr_names (GDEmail_MarshalXML m))) = (GDEmail.DisplayName m \<noteq> []))
   \<and> ((''rel'' \<in> set (attr_names (GDPhoneNumber_MarshalXML p))) = (GDPhoneNumber.Related p \<noteq> [])
    \<and> (''label'' \<in> set (attr_names (GDPhoneNumber_MarshalXML p))) = (GDPhoneNumber.Label p \<noteq> [])
    \<and> (''uri'' \<in> set (attr_names (GDPhoneNumber_MarshalXML p))) = (GDPhoneNumber.URI p \<noteq> [])
    \<and> (''primary'' \<in> set (attr_names (GDPhoneNumber_MarshalXML p))) = GDPhoneNumber.Primary p
    \<and> markup_chardata (GDPhoneNumber_MarshalXML p) = TrimSpace (GDPhoneNumber.DialNumber p))
   \<and> (''address'' \<in> set (attr_names (GDIM_MarshalXML im))
    \<and> (''label'' \<in> set (attr_names (GDIM_MarshalXML im))) = (GDIM.Label im \<noteq> [])
    \<and> (''rel'' \<in> set (attr_names (GDIM_MarshalXML im))) = (GDIM.Related im \<noteq> [])
    \<and> (''protocol'' \<in> set (attr_names (GDIM_MarshalXML im))) = (GDIM.Protocol im \<noteq> [])
    \<and> (''primary'' \<in> set (attr_names (GDIM_MarshalXML im))) = GDIM.Primary im)
   \<and> (''name'' \<in> set (attr_names (GDExtendedProperty_MarshalXML x))
    \<and> (''value'' \<in> set (attr_names (GDExtendedProperty_MarshalXML x))) = (GDExtendedProperty.Value x \<noteq> [])
    \<and> (''realm'' \<in> set (attr_names (GDExtendedProperty_MarshalXML x))) = (GDExtendedProperty.Realm x \<noteq> []))
   \<and> ((''rel'' \<in> set (attr_names (GDStructuredPostalAddress_MarshalXML a))) = (GDStructuredPostalAddress.Related a \<noteq> [])
    \<and> (''mailClass'' \<in> set (attr_names (GDStructuredPostalAddress_MarshalXML a))) = (GDStructuredPostalAddress.MailClass a \<noteq> [])
    \<and> (''usage'' \<in> set (attr_names (GDStructuredPostalAddress_MarshalXML a))) = (GDStructuredPostalAddress.Usage a \<noteq> [])
    \<and> (''label'' \<in> set (attr_names (GDStructuredPostalAddress_MarshalXML a))) = (GDStructuredPostalAddress.Label a \<noteq> [])
    \<and> (''primary'' \<in> set (attr_names (GDStructuredPostalAddress_MarshalXML a))) = GDStructuredPostalAddress.Primary a)
   \<and> ((''gd:agent'' \<in> set (child_tags (GDStructuredPostalAddress_MarshalXML a))) = (GDStructuredPostalAddress.Agent a \<noteq> [])
    \<and> (''gd:housename'' \<in> set (child_tags (GDStructuredPostalAddress_MarshalXML a))) = (GDStructuredPostalAddress.HouseName a \<noteq> [])
    \<and> (''gd:pobox'' \<in> set (child_tags (GDStructuredPostalAddress_MarshalXML a))) = (GDStructuredPostalAddress.Pobox a \<noteq> [])
    \<and> (''gd:neighborhood'' \<in> set (child_tags (GDStructuredPostalAddress_MarshalXML a))) = (GDStructuredPostalAddress.Neighborhood a \<noteq> [])
    \<and> (''gd:city'' \<in> set (child_tags (GDStructuredPostalAddress_MarshalXML a))) = (GDStructuredPostalAddress.City a \<noteq> [])
    \<and> (''gd:street'' \<in> set (child_tags (GDStructuredPostalAddress_MarshalXML a))) = (GDStructuredPostalAddress.Street a \<noteq> [])
    \<and> (''gd:region'' \<in> set (child_tags (GDStructuredPostalAddress_MarshalXML a))) = (GDStructuredPostalAddress.Region a \<noteq> [])
    \<and> (''gd:subregion'' \<in> set (child_tags (GDStructuredPostalAddress_MarshalXML a))) = (GDStructuredPostalAddress.SubRegion a \<noteq> [])
    \<and> (''gd:postcode'' \<in> set (child_tags (GDStructuredPostalAddress_MarshalXML a))) = (GDStructuredPostalAddress.PostCode a \<noteq> [])
    \<and> (''gd:country'' \<in> set (child_tags (GDStructuredPostalAddress_MarshalXML a))) = (GDStructuredPostalAddress.Country a \<noteq> [])
    \<and> (''gd:formattedAddress'' \<in> set (child_tags (GDStructuredPostalAddress_MarshalXML a))) = (GDStructuredPostalAddress.FormattedAddress a \<noteq> []))
   \<and> (''gd:name'' \<in> set (child_tags (ContactKind_MarshalXML c))
    \<and> ''content'' \<in> set (child_tags (ContactKind_MarshalXML c))
    \<and> (''gd:email'' \<in> set (child_tags (ContactKind_MarshalXML c))) = (ContactKind.Email c \<noteq> [])
    \<and> (''gd:phoneNumber'' \<in> set (child_tags (ContactKind_MarshalXML c))) = (ContactKind.PhoneNumber c \<noteq> [])
    \<and> (''gd:structuredPostalAddress'' \<in> set (child_tags (ContactKind_MarshalXML c))) = (ContactKind.StructuredPostalAddress c \<noteq> [])
    \<and> (''gd:extendedProperty'' \<in> set (child_tags (ContactKind_MarshalXML c))) = (ContactKind.ExtendedProperty c \<noteq> [])
    \<and> (''gd:im'' \<in> set (child_tags (ContactKind_MarshalXML c))) = (ContactKind.IM c \<noteq> []))"
  using omit_GDName [of n] omit_GDEmail [of m] omit_GDPhoneNumber [of p] omit_GDIM [of im]
    omit_GDExtendedProperty [of x] omit_address_attrs [of a] omit_address_children [of a]
    omit_ContactKind [of c]
  by blast

text \<open>
  C7, counterexample. The zero contact has empty content, and its encoding has a
  \<open>content\<close> element.
\<close>

theorem empty_content_is_written:
  "content ContactKind_zero = []
   \<and> ''content'' \<in> set (child_tags (ContactKind_MarshalXML ContactKind_zero))"
  by (simp add: child_tags_ContactKind ContactKind_zero_def)

text \<open>
  C8. An entry without a \<open>category\<close> element of Atom, or whose category term as the decoder
  reads it is not the contact term, is never decoded: \<open>ContactKind.UnmarshalXML\<close>
  returns an error, and when the entry is otherwise well formed the error is the
  mismatch error that names the expected term and the term found.
\<close>

theorem category_guard:
  assumes "elems_ns atom_ns ''category'' (elem_children start) = []
           \<or> decode_Category_Term (elem_children start) \<noteq> contactTerm"
  shows "(\<exists>err. ContactKind_UnmarshalXML pt c start = Inl err)
       \<and> (\<forall>obj. decodeContactKind_DecodeElement pt start = Inr obj \<longrightarrow>
            ContactKind_UnmarshalXML pt c start =
              Inl (Errorf (''xml type not match: expect '' @ contactTerm @ '', got ''
                     @ decode_Category_Term (elem_children start))))"
proof -
  from assms have ne: "decode_Category_Term (elem_children start) \<noteq> contactTerm"
    using no_category by blast
  show ?thesis
  proof (cases "decodeContactKind_DecodeElement pt start")
    case (Inl e)
    then show ?thesis by (simp add: ContactKind_UnmarshalXML_def)
  next
    case (Inr obj)
    then show ?thesis
      using ne DecodeElement_Category_Term [OF Inr]
      by (simp add: ContactKind_UnmarshalXML_def)
  qed
qed

theorem category_guard_witness:
  "decode_Category_Term (elem_children example_event_entry) \<noteq> contactTerm
   \<and> ContactKind_UnmarshalXML example_pt ContactKind_zero example_event_entry =
       Inl (Errorf (''xml type not match: expect http://schemas.google.com/contact/2008#contact''
              @ '', got http://schemas.google.com/g/2005#event''))
   \<and> elems_ns atom_ns ''category'' (elem_children example_bare_entry) = []
   \<and> ContactKind_UnmarshalXML example_pt ContactKind_zero example_bare_entry =
       Inl (Errorf (''xml type not match: expect http://schemas.google.com/contact/2008#contact''
              @ '', got ''))"
proof -
  have h: "decode_Category_Term (elem_children example_event_entry) \<noteq> contactTerm"
    by (simp add: decode_Category_Term_def example_event_entry_def elems_ns_def atom_ns_def
        attr_values_def contactTerm_def copy_string_def)
  have t: "decode_Category_Term (elem_children example_event_entry)
           = ''http://schemas.google.com/g/2005#event''"
    by (simp add: decode_Category_Term_def example_event_entry_def elems_ns_def atom_ns_def
        attr_values_def copy_string_def)
  obtain obj where d: "decodeContactKind_DecodeElement example_pt example_event_entry = Inr obj"
    using example_event_entry_decodes by blast
  from h have "elems_ns atom_ns ''category'' (elem_children example_event_entry) = []
           \<or> decode_Category_Term (elem_children example_event_entry) \<noteq> contactTerm" by blast
  from category_guard [OF this, of example_pt ContactKind_zero] d
  have "ContactKind_UnmarshalXML example_pt ContactKind_zero example_event_entry =
              Inl (Errorf (''xml type not match: expect '' @ contactTerm @ '', got ''
                     @ decode_Category_Term (elem_children example_event_entry)))"
    by blast
  then have 1: "ContactKind_UnmarshalXML example_pt ContactKind_zero example_event_entry =
       Inl (Errorf (''xml type not match: expect http://schemas.google.com/contact/2008#contact''
              @ '', got http://schemas.google.com/g/2005#event''))"
    unfolding t by (simp add: contactTerm_def)
  have a: "elems_ns atom_ns ''category'' (elem_children example_bare_entry) = []"
    by (simp add: example_bare_entry_def elems_ns_def atom_ns_def)
  have t': "decode_Category_Term (elem_children example_bare_entry) = []"
    by (simp add: decode_Category_Term_def example_bare_entry_def elems_ns_def atom_ns_def copy_string_def)
  obtain obj' where d': "decodeContactKind_DecodeElement example_pt example_bare_entry = Inr obj'"
    using example_bare_entry_decodes by blast
  from a have "elems_ns atom_ns ''category'' (elem_children example_bare_entry) = []
           \<or> decode_Category_Term (elem_children example_bare_entry) \<noteq> contactTerm" by blast
  from category_guard [OF this, of example_pt ContactKind_zero] d'
  have "ContactKind_UnmarshalXML example_pt ContactKind_zero example_bare_entry =
              Inl (Errorf (''xml type not match: expect '' @ contactTerm @ '', got ''
                     @ decode_Category_Term (elem_children example_bare_entry)))"
    by blast
  then have 2: "ContactKind_UnmarshalXML example_pt ContactKind_zero example_bare_entry =
       Inl (Errorf (''xml type not match: expect http://schemas.google.com/contact/2008#contact''
              @ '', got ''))"
    unfolding t' by (simp add: contactTerm_def)
  from h 1 a 2 show ?thesis by blast
qed

text \<open>
  C9. In a decoded contact the extended properties map a name to the value of the last
  \<open>extendedProperty\<close> element of the entry that carries the name, in document order,
  and map a name that no element carries to nothing.
\<close>

theorem extended_property_last_wins:
  assumes "ContactKind_UnmarshalXML pt c start = Inr c'"
  shows "map_of (ContactKind.ExtendedProperty c') k =
     (let pairs = map (\<lambda>e. (attr_string ''name'' (elem_attrs e),
                                attr_string ''value'' (elem_attrs e)))
                    (elems_ns gd_ns ''extendedProperty'' (elem_children start))
      in if filter (\<lambda>p. fst p = k) pairs = [] then None
         else Some (snd (last (filter (\<lambda>p. fst p = k) pairs))))"
proof -
  obtain obj where d: "decodeContactKind_DecodeElement pt start = Inr obj"
    and e: "ContactKind.ExtendedProperty c' = set_ExtendedProperty (o_ExtendedProperty obj)"
    using ContactKind_UnmarshalXML_InrD [OF assms] by blast
  show ?thesis
    unfolding e set_ExtendedProperty_map_of DecodeElement_ExtendedProperty [OF d]
    by (simp add: map_of_rev_last o_def)
qed

theorem extended_property_last_wins_witness:
  "\<exists>c'. ContactKind_UnmarshalXML example_pt ContactKind_zero example_props_entry = Inr c'
        \<and> map_of (ContactKind.ExtendedProperty c') ''color'' = Some ''blue''
        \<and> map_of (ContactKind.ExtendedProperty c') ''size'' = Some ''XL''
        \<and> map_of (ContactKind.ExtendedProperty c') ''shape'' = None"
proof -
  obtain c' where d: "ContactKind_UnmarshalXML example_pt ContactKind_zero example_props_entry = Inr c'"
    using example_props_entry_decodes by blast
  have "map_of (ContactKind.ExtendedProperty c') ''color'' = Some ''blue''"
    using extended_property_last_wins [OF d, of "''color''"]
    by (simp add: example_props_entry_def elems_ns_def gd_ns_def atom_ns_def attr_string_def
        attr_values_def)
  moreover have "map_of (ContactKind.ExtendedProperty c') ''size'' = Some ''XL''"
    using extended_property_last_wins [OF d, of "''size''"]
    by (simp add: example_props_entry_def elems_ns_def gd_ns_def atom_ns_def attr_string_def
        attr_values_def)
  moreover have "map_of (ContactKind.ExtendedProperty c') ''shape'' = None"
    using extended_property_last_wins [OF d, of "''shape''"]
    by (simp add: example_props_entry_def elems_ns_def gd_ns_def atom_ns_def attr_string_def
        attr_values_def)
  ultimately show ?thesis using d by blast
qed

text \<open>
  C10. The claim says that \<open>WithTextQuery\<close> sets \<open>q\<close> to all supplied terms joined by
  spaces, negated terms rendered for exclusion and every other term present as well.
  On the terms of the function's own example, \<open>"Elizabeth Bennet"\<close>, \<open>Darcy\<close> and
  \<open>-Austen\<close>, the code writes the two separators and the negated term only: the
  parameter is two spaces followed by \<open>-"Austen"\<close>, and neither of the other terms
  occurs in it.
\<close>

theorem WithTextQuery_drops_plain_terms:
  "WithTextQuery [[CHR 0x22] @ ''Elizabeth Bennet'' @ [CHR 0x22], ''Darcy'', ''-Austen''] []
     = [(''q'', [''  -'' @ [CHR 0x22] @ ''Austen'' @ [CHR 0x22]])]
   \<and> WithTextQuery [''Darcy''] [] = [(''q'', [''''])]"
  by (simp add: WithTextQuery_def Values_Set_def HasPrefix_def TrimPrefix_def)

end
